theory Spec2Isabelle
  imports Complex_Main "HOL-Library.AList"
begin

section \<open>Conventions of the embedding\<close>

text \<open>
  The repository is TypeScript. Its branded number types (\<^verbatim>\<open>Kilograms\<close>, \<^verbatim>\<open>Kilometers\<close>,
  \<^verbatim>\<open>USD\<close>, \<^verbatim>\<open>TonsCO2e\<close>, \<^verbatim>\<open>Hours\<close>, \<^verbatim>\<open>Miles\<close>) are all \<^verbatim>\<open>number\<close> at run time; the
  constructors \<^verbatim>\<open>kg\<close>, \<^verbatim>\<open>km\<close>, \<^verbatim>\<open>usd\<close>, \<^verbatim>\<open>tCO2e\<close>, \<^verbatim>\<open>hours\<close>, \<^verbatim>\<open>miles\<close> and
  \<^verbatim>\<open>toNumber\<close> are identities. A \<^verbatim>\<open>number\<close> is modelled as a \<^typ>\<open>real\<close>: arithmetic is
  exact, and the values NaN and the infinities of IEEE doubles are outside the model.
  An optional field is an \<^typ>\<open>'a option\<close>, a thrown \<^verbatim>\<open>Error\<close> is the left summand of the
  result, a \<^verbatim>\<open>null\<close> result is \<^term>\<open>None\<close>.
\<close>

datatype error =
  Error string
  | GridTooLarge nat nat
    \<comment> \<open>\<^verbatim>\<open>Error(`Grid too large: ${gridPointCount} points exceeds limit ${MAX_GRID_POINTS}`)\<close>\<close>

section \<open>Panel flow simulation (simulatePanelFlow.ts)\<close>

definition DEFAULT_TRUCK_SPEED_KM_PER_HOUR :: real where
  "DEFAULT_TRUCK_SPEED_KM_PER_HOUR = 50"

definition DEFAULT_LOAD_UNLOAD_HOURS_PER_TRIP :: real where
  "DEFAULT_LOAD_UNLOAD_HOURS_PER_TRIP = 25 / 100"

record UnitOfWork =
  inboundMaterial :: real
  haulDistancePerTrip :: real

record CostDrivers =
  truckCapacity :: real
  haulCostPerKm :: real
  laborCostPerHour :: real
  crusherProcessingCostPerKg :: real
  grinderProcessingCostPerKg :: real
  crusherThroughputKgPerHour :: real
  grinderThroughputKgPerHour :: real

record SustainabilityDrivers =
  haulEmissionsPerKm :: real
  crusherEmissionsPerKg :: real
  grinderEmissionsPerKg :: real
  crusherRecoveryRate :: real
  grinderRecoveryRate :: real

record SimulationOptions =
  useCrusher :: bool
  truckSpeedKmPerHour :: "real option"
  loadUnloadHoursPerTrip :: "real option"

record SimulationResult =
  totalCost :: real
  totalTime :: real
  totalEmissions :: real
  truckTrips :: int
  materialRecovered :: real

text \<open>The validators return \<^verbatim>\<open>void\<close> or throw: \<^term>\<open>None\<close> is the normal return.\<close>

definition validateRate :: "real \<Rightarrow> string \<Rightarrow> error option" where
  "validateRate rate name =
     (if rate < 0 \<or> rate > 1 then Some (Error (name @ '' must be between 0 and 1'')) else None)"

definition validatePositive :: "real \<Rightarrow> string \<Rightarrow> error option" where
  "validatePositive v name =
     (if v \<le> 0 then Some (Error (name @ '' must be > 0'')) else None)"

text \<open>
  \<^verbatim>\<open>Math.ceil\<close> of the quotient is the integer \<^term>\<open>\<lceil>inputKg / truckCapacity c\<rceil>\<close>, used as
  a number in the products that follow. Every division happens after the check that
  its divisor is positive.
\<close>

definition simulatePanelFlow ::
  "UnitOfWork \<Rightarrow> CostDrivers \<Rightarrow> SustainabilityDrivers \<Rightarrow> SimulationOptions
     \<Rightarrow> error + SimulationResult" where
  "simulatePanelFlow unitOfWork costDrivers sustainabilityDrivers options =
    (let truckSpeed = (case truckSpeedKmPerHour options of
                         None \<Rightarrow> DEFAULT_TRUCK_SPEED_KM_PER_HOUR | Some v \<Rightarrow> v);
         loadUnloadHours = (case loadUnloadHoursPerTrip options of
                         None \<Rightarrow> DEFAULT_LOAD_UNLOAD_HOURS_PER_TRIP | Some v \<Rightarrow> v)
     in
     (case validatePositive truckSpeed ''truckSpeedKmPerHour'' of Some e \<Rightarrow> Inl e | None \<Rightarrow>
     (case validatePositive loadUnloadHours ''loadUnloadHoursPerTrip'' of Some e \<Rightarrow> Inl e | None \<Rightarrow>
     (case validatePositive (truckCapacity costDrivers) ''truckCapacity'' of Some e \<Rightarrow> Inl e | None \<Rightarrow>
     (case validatePositive (inboundMaterial unitOfWork) ''inboundMaterial'' of Some e \<Rightarrow> Inl e | None \<Rightarrow>
     (case validatePositive (haulDistancePerTrip unitOfWork) ''haulDistancePerTrip'' of Some e \<Rightarrow> Inl e | None \<Rightarrow>
     (case validateRate (crusherRecoveryRate sustainabilityDrivers) ''crusherRecoveryRate'' of Some e \<Rightarrow> Inl e | None \<Rightarrow>
     (case validateRate (grinderRecoveryRate sustainabilityDrivers) ''grinderRecoveryRate'' of Some e \<Rightarrow> Inl e | None \<Rightarrow>
     (let inputKg = inboundMaterial unitOfWork;
          distancePerTripKm = haulDistancePerTrip unitOfWork;
          trips = \<lceil>inputKg / truckCapacity costDrivers\<rceil>;
          processingThroughput = (if useCrusher options
                                  then crusherThroughputKgPerHour costDrivers
                                  else grinderThroughputKgPerHour costDrivers)
      in
      (case validatePositive processingThroughput ''processingThroughputKgPerHour'' of Some e \<Rightarrow> Inl e | None \<Rightarrow>
      (let processingCostPerKg = (if useCrusher options
                                  then crusherProcessingCostPerKg costDrivers
                                  else grinderProcessingCostPerKg costDrivers);
           processEmissionsPerKg = (if useCrusher options
                                  then crusherEmissionsPerKg sustainabilityDrivers
                                  else grinderEmissionsPerKg sustainabilityDrivers);
           recoveryRate = (if useCrusher options
                                  then crusherRecoveryRate sustainabilityDrivers
                                  else grinderRecoveryRate sustainabilityDrivers);
           totalDistanceKm = of_int trips * distancePerTripKm;
           haulTimeHours = totalDistanceKm / truckSpeed + of_int trips * loadUnloadHours;
           processingTimeHours = inputKg / processingThroughput;
           totalTimeHours = haulTimeHours + processingTimeHours;
           haulCost = totalDistanceKm * haulCostPerKm costDrivers;
           processingCost = inputKg * processingCostPerKg;
           laborCost = totalTimeHours * laborCostPerHour costDrivers;
           totalCostValue = haulCost + processingCost + laborCost;
           haulEmissions = totalDistanceKm * haulEmissionsPerKm sustainabilityDrivers;
           processEmissions = inputKg * processEmissionsPerKg;
           totalEmissionsValue = haulEmissions + processEmissions;
           recoveredKg = inputKg * recoveryRate
       in Inr \<lparr> totalCost = totalCostValue,
                  totalTime = totalTimeHours,
                  totalEmissions = totalEmissionsValue,
                  truckTrips = trips,
                  materialRecovered = recoveredKg \<rparr>)))))))))))"

definition makeUnitOfWork :: "real \<Rightarrow> real \<Rightarrow> UnitOfWork" where
  "makeUnitOfWork inboundMaterialKg haulDistanceKm =
     \<lparr> inboundMaterial = inboundMaterialKg, haulDistancePerTrip = haulDistanceKm \<rparr>"

text \<open>
  The conjunction of the checks \<^const>\<open>simulatePanelFlow\<close> makes, in the order it makes
  them: the inputs on which it returns a result.
\<close>

definition simulationChecksPass ::
  "UnitOfWork \<Rightarrow> CostDrivers \<Rightarrow> SustainabilityDrivers \<Rightarrow> SimulationOptions \<Rightarrow> bool" where
  "simulationChecksPass u c s opts \<longleftrightarrow>
     0 < (case truckSpeedKmPerHour opts of None \<Rightarrow> DEFAULT_TRUCK_SPEED_KM_PER_HOUR | Some v \<Rightarrow> v) \<and>
     0 < (case loadUnloadHoursPerTrip opts of None \<Rightarrow> DEFAULT_LOAD_UNLOAD_HOURS_PER_TRIP | Some v \<Rightarrow> v) \<and>
     0 < truckCapacity c \<and> 0 < inboundMaterial u \<and> 0 < haulDistancePerTrip u \<and>
     0 \<le> crusherRecoveryRate s \<and> crusherRecoveryRate s \<le> 1 \<and>
     0 \<le> grinderRecoveryRate s \<and> grinderRecoveryRate s \<le> 1 \<and>
     0 < (if useCrusher opts then crusherThroughputKgPerHour c else grinderThroughputKgPerHour c)"

section \<open>Environmental KPIs (environmentalKpis.ts)\<close>

record EnvironmentalKpiFactors =
  co2AvoidedPerKgRecovered :: real
  carbonCapturePotentialPerKgRecovered :: real
  baselineTruckMilesPerTrip :: real
  optimizedTruckMilesPerTrip :: real

text \<open>\<^verbatim>\<open>Partial<EnvironmentalKpiFactors>\<close>: every field may be absent.\<close>

record EnvironmentalKpiFactorOverrides =
  co2AvoidedPerKgRecoveredOverride :: "real option"
  carbonCapturePotentialPerKgRecoveredOverride :: "real option"
  baselineTruckMilesPerTripOverride :: "real option"
  optimizedTruckMilesPerTripOverride :: "real option"

definition DEFAULT_ENVIRONMENTAL_KPI_FACTORS :: EnvironmentalKpiFactors where
  "DEFAULT_ENVIRONMENTAL_KPI_FACTORS =
     \<lparr> co2AvoidedPerKgRecovered = 12 / 100000,
       carbonCapturePotentialPerKgRecovered = 3 / 100000,
       baselineTruckMilesPerTrip = 42,
       optimizedTruckMilesPerTrip = 30 \<rparr>"

text \<open>
  The object spread \<^verbatim>\<open>{...DEFAULT_ENVIRONMENTAL_KPI_FACTORS, ...overrides}\<close>: a field of the
  overrides that is present replaces the default.
\<close>

definition resolvedFactors :: "EnvironmentalKpiFactorOverrides option \<Rightarrow> EnvironmentalKpiFactors" where
  "resolvedFactors overrides =
     (case overrides of
        None \<Rightarrow> DEFAULT_ENVIRONMENTAL_KPI_FACTORS
      | Some ov \<Rightarrow>
         \<lparr> co2AvoidedPerKgRecovered =
             (case co2AvoidedPerKgRecoveredOverride ov of
                None \<Rightarrow> co2AvoidedPerKgRecovered DEFAULT_ENVIRONMENTAL_KPI_FACTORS | Some v \<Rightarrow> v),
           carbonCapturePotentialPerKgRecovered =
             (case carbonCapturePotentialPerKgRecoveredOverride ov of
                None \<Rightarrow> carbonCapturePotentialPerKgRecovered DEFAULT_ENVIRONMENTAL_KPI_FACTORS
              | Some v \<Rightarrow> v),
           baselineTruckMilesPerTrip =
             (case baselineTruckMilesPerTripOverride ov of
                None \<Rightarrow> baselineTruckMilesPerTrip DEFAULT_ENVIRONMENTAL_KPI_FACTORS | Some v \<Rightarrow> v),
           optimizedTruckMilesPerTrip =
             (case optimizedTruckMilesPerTripOverride ov of
                None \<Rightarrow> optimizedTruckMilesPerTrip DEFAULT_ENVIRONMENTAL_KPI_FACTORS | Some v \<Rightarrow> v) \<rparr>)"

definition validateFactors :: "EnvironmentalKpiFactors \<Rightarrow> error option" where
  "validateFactors factors =
     (if co2AvoidedPerKgRecovered factors < 0
      then Some (Error ''co2AvoidedPerKgRecovered must be >= 0'')
      else if carbonCapturePotentialPerKgRecovered factors < 0
      then Some (Error ''carbonCapturePotentialPerKgRecovered must be >= 0'')
      else if baselineTruckMilesPerTrip factors < 0 \<or> optimizedTruckMilesPerTrip factors < 0
      then Some (Error ''truck miles factors must be >= 0'')
      else None)"


definition computeCarbonCapturePotential ::
  "SimulationResult \<Rightarrow> EnvironmentalKpiFactorOverrides option \<Rightarrow> error + real" where
  "computeCarbonCapturePotential simulationResult factorOverrides =
     (let factors = resolvedFactors factorOverrides in
      case validateFactors factors of Some e \<Rightarrow> Inl e | None \<Rightarrow>
        Inr (materialRecovered simulationResult * carbonCapturePotentialPerKgRecovered factors))"

definition computeTruckMilesAvoided ::
  "SimulationResult \<Rightarrow> EnvironmentalKpiFactorOverrides option \<Rightarrow> error + real" where
  "computeTruckMilesAvoided simulationResult factorOverrides =
     (let factors = resolvedFactors factorOverrides in
      case validateFactors factors of Some e \<Rightarrow> Inl e | None \<Rightarrow>
        (let milesAvoidedPerTrip =
               max 0 (baselineTruckMilesPerTrip factors - optimizedTruckMilesPerTrip factors)
         in Inr (of_int (truckTrips simulationResult) * milesAvoidedPerTrip)))"

section \<open>Investment evaluation (investmentEvaluator.ts)\<close>

subsection \<open>NPV\<close>

text \<open>
  \<^verbatim>\<open>cashFlows.reduce((acc, cashFlow, periodIndex) => acc + cashFlow / (1 + discountRate) ** periodIndex, 0)\<close>
  is a left fold over the flows paired with their indices. The exponent is the index, a
  natural number, and the base is positive after the check.
\<close>

definition NPV :: "real \<Rightarrow> real list \<Rightarrow> error + real" where
  "NPV discountRate cashFlows =
     (if discountRate \<le> - 1 then Inl (Error ''discountRate must be greater than -1'')
      else Inr (foldl (\<lambda>acc (periodIndex, cashFlow). acc + cashFlow / (1 + discountRate) ^ periodIndex)
                  0 (enumerate 0 cashFlows)))"

subsection \<open>PaybackPeriod\<close>



subsection \<open>IRR\<close>

text \<open>
  \<^verbatim>\<open>IRR\<close> calls \<^verbatim>\<open>f = (rate) => NPV(rate, cashFlows)\<close>, which can throw; the model passes
  the error on. The last argument and the last component of the result, \<open>rates\<close>, is
  instrumentation that the source does not have: the list of the rates \<^verbatim>\<open>f\<close> has been
  called with, in call order. Nothing is computed from it.

  The bracket expansion \<^verbatim>\<open>while (fLow * fHigh > 0 && expansions < 20)\<close>:
\<close>

function expandBracket ::
  "real list \<Rightarrow> real \<Rightarrow> real \<Rightarrow> real \<Rightarrow> nat \<Rightarrow> real list
     \<Rightarrow> error + (real \<times> real \<times> real list)" where
  "expandBracket cashFlows fLow high fHigh expansions rates =
     (if fLow * fHigh > 0 \<and> expansions < 20 then
        (let high' = high * 2 in
         case NPV high' cashFlows of
           Inl e \<Rightarrow> Inl e
         | Inr fHigh' \<Rightarrow>
             expandBracket cashFlows fLow high' fHigh' (expansions + 1) (rates @ [high']))
      else Inr (high, fHigh, rates))"
  by pat_completeness auto
termination
  by (relation "measure (\<lambda>(cashFlows, fLow, high, fHigh, expansions, rates). 20 - expansions)") auto

text \<open>The bisection \<^verbatim>\<open>for (let i = 0; i < maxIterations; i += 1)\<close> and the return after it:\<close>

function bisect ::
  "real list \<Rightarrow> nat \<Rightarrow> real \<Rightarrow> nat \<Rightarrow> real \<Rightarrow> real \<Rightarrow> real \<Rightarrow> real \<Rightarrow> real list
     \<Rightarrow> error + (real option \<times> real list)" where
  "bisect cashFlows maxIterations tolerance i low high fLow fHigh rates =
     (if i < maxIterations then
        (let mid = (low + high) / 2 in
         case NPV mid cashFlows of
           Inl e \<Rightarrow> Inl e
         | Inr fMid \<Rightarrow>
             if \<bar>fMid\<bar> < tolerance then Inr (Some mid, rates @ [mid])
             else if fLow * fMid < 0
             then bisect cashFlows maxIterations tolerance (i + 1) low mid fLow fMid (rates @ [mid])
             else bisect cashFlows maxIterations tolerance (i + 1) mid high fMid fHigh (rates @ [mid]))
      else Inr (Some ((low + high) / 2), rates))"
  by pat_completeness auto
termination
  by (relation "measure (\<lambda>(cashFlows, maxIterations, tolerance, i, low, high, fLow, fHigh, rates).
        maxIterations - i)") auto


definition IRR_traced :: "real list \<Rightarrow> nat \<Rightarrow> real \<Rightarrow> error + (real option \<times> real list)" where
  "IRR_traced cashFlows maxIterations tolerance =
     (if length cashFlows < 2 then Inr (None, [])
      else
        (let hasPositive = list_ex (\<lambda>v. v > 0) cashFlows;
             hasNegative = list_ex (\<lambda>v. v < 0) cashFlows
         in if \<not> hasPositive \<or> \<not> hasNegative then Inr (None, [])
            else
              (let low = - (9999 / 10000);
                   high = 1
               in (case NPV low cashFlows of Inl e \<Rightarrow> Inl e | Inr fLow \<Rightarrow>
                  (case NPV high cashFlows of Inl e \<Rightarrow> Inl e | Inr fHigh \<Rightarrow>
                  (case expandBracket cashFlows fLow high fHigh 0 [low, high] of
                    Inl e \<Rightarrow> Inl e
                  | Inr (high', fHigh', rates) \<Rightarrow>
                      if fLow * fHigh' > 0 then Inr (None, rates)
                      else bisect cashFlows maxIterations tolerance 0 low high' fLow fHigh' rates))))))"

text \<open>
  \<^verbatim>\<open>IRR(cashFlows, maxIterations = 200, tolerance = 1e-7)\<close>; every caller in the repository
  uses the defaults.
\<close>

definition IRR_with :: "real list \<Rightarrow> nat \<Rightarrow> real \<Rightarrow> error + real option" where
  "IRR_with cashFlows maxIterations tolerance =
     (case IRR_traced cashFlows maxIterations tolerance of
        Inl e \<Rightarrow> Inl e
      | Inr (result, rates) \<Rightarrow> Inr result)"

definition IRR :: "real list \<Rightarrow> error + real option" where
  "IRR cashFlows = IRR_with cashFlows 200 (1 / 10 ^ 7)"

subsection \<open>The specification's reading of NPV and IRR\<close>

text \<open>
  These definitions follow the words of the specification, not the code, and are what
  the code is compared with. \<open>NPV(rate, flows) = \<Sum> flow_i / (1 + rate)^i\<close>:
\<close>

definition npvSum :: "real \<Rightarrow> real list \<Rightarrow> real" where
  "npvSum rate flows = (\<Sum>i<length flows. flows ! i / (1 + rate) ^ i)"

text \<open>
  The bracket starts as \<open>[-0.9999, 1.0]\<close>. The upper bound is doubled up to 20 times in
  search of a sign change: it is \<open>2 ^ k\<close> for the first \<open>k\<close> among 0, ..., 20 at which the
  values of NPV at the two ends no longer have a positive product, and there is no bracket
  when no such \<open>k\<close> exists.
\<close>

definition spec_low :: real where
  "spec_low = - (9999 / 10000)"

definition spec_upper :: "real list \<Rightarrow> real option" where
  "spec_upper flows =
     map_option (\<lambda>k. 2 ^ k)
       (List.find (\<lambda>k. \<not> npvSum spec_low flows * npvSum (2 ^ k) flows > 0) [0..<21])"




subsection \<open>evaluateInvestment\<close>

record SimulationCashFlowPoint =
  period :: real
  simulationResult :: SimulationResult
  recoveredMaterialRevenue :: real
  otherCashFlow :: "real option"

record InvestmentScenarioInput =
  points :: "SimulationCashFlowPoint list"
  initialInvestment :: "real option"

record ScenarioFinancialMetrics =
  cashFlows :: "real list"
  npv :: real
  irr :: "real option"
  paybackPeriod :: "real option"

record EvaluateInvestmentInput =
  discountRate :: real
  baseline :: InvestmentScenarioInput
  grinderPurchase :: InvestmentScenarioInput









text \<open>
  \<^verbatim>\<open>[...new Set(values)]\<close>: the values in order of first occurrence, each once.
\<close>

fun setInsertAll :: "'a list \<Rightarrow> 'a list \<Rightarrow> 'a list" where
  "setInsertAll acc [] = acc"
| "setInsertAll acc (x # xs) = setInsertAll (if x \<in> set acc then acc else acc @ [x]) xs"

definition uniqueValues :: "'a list \<Rightarrow> 'a list" where
  "uniqueValues xs = setInsertAll [] xs"




section \<open>Sensitivity grid (apps/lab/app/api/sensitivity/simulation.ts)\<close>

definition EPSILON :: real where
  "EPSILON = 1 / 10 ^ 9"

definition MAX_GRID_POINTS :: nat where
  "MAX_GRID_POINTS = 2500"

text \<open>
  \<^verbatim>\<open>round(value, digits = 6) = Number(value.toFixed(digits))\<close>; every call uses 6 digits, and
  the name \<open>round\<close> is taken. \<^verbatim>\<open>toFixed\<close> rounds the absolute value to the nearest
  multiple of \<open>10^-6\<close>, the larger one on a tie, and restores the sign.
\<close>

definition round6 :: "real \<Rightarrow> real" where
  "round6 v =
     (if v < 0 then - (of_int \<lfloor>- v * 10 ^ 6 + 1 / 2\<rfloor> / 10 ^ 6)
      else of_int \<lfloor>v * 10 ^ 6 + 1 / 2\<rfloor> / 10 ^ 6)"

definition roundNullable :: "real option \<Rightarrow> real option" where
  "roundNullable v = (case v of None \<Rightarrow> None | Some x \<Rightarrow> Some (round6 x))"

subsection \<open>The request and its schema\<close>

record NumericRange =
  range_start :: real
  range_end :: real
  range_step :: real

record SensitivityRanges =
  haulDistancePerTripRange :: NumericRange
  reuseUptakeRateRange :: NumericRange
  grinderUtilizationRange :: "NumericRange option"
  grinderThroughputKgPerHourRange :: "NumericRange option"

text \<open>The optional fields of the request carry the prefix \<open>req_\<close>.\<close>

record SensitivityAssumptionsInput =
  req_virginAggregateEmissionsPerKg :: "real option"
  req_virginAggregateCostPerKg :: "real option"
  req_landfillDisposalCostPerKg :: "real option"
  req_grinderCapitalCostUsd :: "real option"
  req_runsPerDay :: "real option"

record ExpeditePenaltyProxyInput =
  req_enabled :: "bool option"
  req_specReadiness :: "real option"
  req_lowSpecReadinessThreshold :: "real option"
  req_readinessExponent :: "real option"
  req_baseCostPenaltyUsd :: "real option"
  req_baseEmissionsPenaltyTonsCO2e :: "real option"
  req_haulDistanceThresholdKm :: "real option"
  req_haulCostPenaltyUsdPerKm :: "real option"
  req_haulEmissionsPenaltyTonsCO2ePerKm :: "real option"

record SensitivityRequestPayload =
  unitOfWork :: UnitOfWork
  costDrivers :: CostDrivers
  sustainabilityDrivers :: SustainabilityDrivers
  ranges :: SensitivityRanges
  assumptions :: "SensitivityAssumptionsInput option"
  expeditePenaltyProxy :: "ExpeditePenaltyProxyInput option"

text \<open>
  The zod schemas, as predicates on the parsed values: what \<^verbatim>\<open>sensitivityRequestSchema\<close>
  accepts. (\<^verbatim>\<open>unitOfWorkSchema\<close>, \<^verbatim>\<open>costDriversSchema\<close> and \<^verbatim>\<open>sustainabilityDriversSchema\<close>
  are those of \<^verbatim>\<open>api/simulate/simulation.ts\<close>.)
\<close>

definition unitOfWorkSchema :: "UnitOfWork \<Rightarrow> bool" where
  "unitOfWorkSchema u \<longleftrightarrow> 0 < inboundMaterial u \<and> 0 < haulDistancePerTrip u"

definition costDriversSchema :: "CostDrivers \<Rightarrow> bool" where
  "costDriversSchema c \<longleftrightarrow>
     0 < truckCapacity c \<and> 0 \<le> haulCostPerKm c \<and> 0 \<le> laborCostPerHour c \<and>
     0 \<le> crusherProcessingCostPerKg c \<and> 0 \<le> grinderProcessingCostPerKg c \<and>
     0 < crusherThroughputKgPerHour c \<and> 0 < grinderThroughputKgPerHour c"

definition sustainabilityDriversSchema :: "SustainabilityDrivers \<Rightarrow> bool" where
  "sustainabilityDriversSchema s \<longleftrightarrow>
     0 \<le> haulEmissionsPerKm s \<and> 0 \<le> crusherEmissionsPerKg s \<and> 0 \<le> grinderEmissionsPerKg s \<and>
     0 \<le> crusherRecoveryRate s \<and> crusherRecoveryRate s \<le> 1 \<and>
     0 \<le> grinderRecoveryRate s \<and> grinderRecoveryRate s \<le> 1"

definition numericRangeSchema :: "NumericRange \<Rightarrow> bool" where
  "numericRangeSchema r \<longleftrightarrow> 0 < range_step r \<and> range_start r \<le> range_end r"

definition positiveRangeSchema :: "NumericRange \<Rightarrow> bool" where
  "positiveRangeSchema r \<longleftrightarrow> numericRangeSchema r \<and> 0 < range_start r"

definition unitIntervalRangeSchema :: "NumericRange \<Rightarrow> bool" where
  "unitIntervalRangeSchema r \<longleftrightarrow>
     numericRangeSchema r \<and>
     0 \<le> range_start r \<and> range_start r \<le> 1 \<and> 0 \<le> range_end r \<and> range_end r \<le> 1"

definition sensitivityRangesSchema :: "SensitivityRanges \<Rightarrow> bool" where
  "sensitivityRangesSchema rs \<longleftrightarrow>
     positiveRangeSchema (haulDistancePerTripRange rs) \<and>
     unitIntervalRangeSchema (reuseUptakeRateRange rs) \<and>
     (case grinderUtilizationRange rs of None \<Rightarrow> True | Some r \<Rightarrow> unitIntervalRangeSchema r) \<and>
     (case grinderThroughputKgPerHourRange rs of None \<Rightarrow> True | Some r \<Rightarrow> positiveRangeSchema r) \<and>
     (grinderUtilizationRange rs \<noteq> None) \<noteq> (grinderThroughputKgPerHourRange rs \<noteq> None)"

definition nonnegativeOptional :: "real option \<Rightarrow> bool" where
  "nonnegativeOptional v = (case v of None \<Rightarrow> True | Some x \<Rightarrow> 0 \<le> x)"

definition positiveOptional :: "real option \<Rightarrow> bool" where
  "positiveOptional v = (case v of None \<Rightarrow> True | Some x \<Rightarrow> 0 < x)"

definition unitIntervalOptional :: "real option \<Rightarrow> bool" where
  "unitIntervalOptional v = (case v of None \<Rightarrow> True | Some x \<Rightarrow> 0 \<le> x \<and> x \<le> 1)"

definition sensitivityAssumptionsSchema :: "SensitivityAssumptionsInput option \<Rightarrow> bool" where
  "sensitivityAssumptionsSchema a =
     (case a of
        None \<Rightarrow> True
      | Some x \<Rightarrow>
          nonnegativeOptional (req_virginAggregateEmissionsPerKg x) \<and>
          nonnegativeOptional (req_virginAggregateCostPerKg x) \<and>
          nonnegativeOptional (req_landfillDisposalCostPerKg x) \<and>
          positiveOptional (req_grinderCapitalCostUsd x) \<and>
          positiveOptional (req_runsPerDay x))"

definition expeditePenaltyProxySchema :: "ExpeditePenaltyProxyInput option \<Rightarrow> bool" where
  "expeditePenaltyProxySchema a =
     (case a of
        None \<Rightarrow> True
      | Some x \<Rightarrow>
          unitIntervalOptional (req_specReadiness x) \<and>
          unitIntervalOptional (req_lowSpecReadinessThreshold x) \<and>
          (case req_readinessExponent x of None \<Rightarrow> True | Some e \<Rightarrow> 1 \<le> e) \<and>
          nonnegativeOptional (req_baseCostPenaltyUsd x) \<and>
          nonnegativeOptional (req_baseEmissionsPenaltyTonsCO2e x) \<and>
          nonnegativeOptional (req_haulDistanceThresholdKm x) \<and>
          nonnegativeOptional (req_haulCostPenaltyUsdPerKm x) \<and>
          nonnegativeOptional (req_haulEmissionsPenaltyTonsCO2ePerKm x))"

definition sensitivityRequestSchema :: "SensitivityRequestPayload \<Rightarrow> bool" where
  "sensitivityRequestSchema payload \<longleftrightarrow>
     unitOfWorkSchema (unitOfWork payload) \<and>
     costDriversSchema (costDrivers payload) \<and>
     sustainabilityDriversSchema (sustainabilityDrivers payload) \<and>
     sensitivityRangesSchema (ranges payload) \<and>
     sensitivityAssumptionsSchema (assumptions payload) \<and>
     expeditePenaltyProxySchema (expeditePenaltyProxy payload)"

subsection \<open>Normalised assumptions\<close>

record NormalizedSensitivityAssumptions =
  virginAggregateEmissionsPerKg :: real
  virginAggregateCostPerKg :: real
  landfillDisposalCostPerKg :: real
  grinderCapitalCostUsd :: real
  runsPerDay :: real

record NormalizedPenaltyProxy =
  enabled :: bool
  specReadiness :: real
  lowSpecReadinessThreshold :: real
  readinessExponent :: real
  baseCostPenaltyUsd :: real
  baseEmissionsPenaltyTonsCO2e :: real
  haulDistanceThresholdKm :: real
  haulCostPenaltyUsdPerKm :: real
  haulEmissionsPenaltyTonsCO2ePerKm :: real

definition DEFAULT_SENSITIVITY_ASSUMPTIONS :: NormalizedSensitivityAssumptions where
  "DEFAULT_SENSITIVITY_ASSUMPTIONS =
     \<lparr> virginAggregateEmissionsPerKg = 5 / 10 ^ 6,
       virginAggregateCostPerKg = 3 / 100,
       landfillDisposalCostPerKg = 45 / 1000,
       grinderCapitalCostUsd = 90000,
       runsPerDay = 1 \<rparr>"

definition DEFAULT_EXPEDITE_PENALTY_PROXY :: NormalizedPenaltyProxy where
  "DEFAULT_EXPEDITE_PENALTY_PROXY =
     \<lparr> enabled = False,
       specReadiness = 1,
       lowSpecReadinessThreshold = 65 / 100,
       readinessExponent = 2,
       baseCostPenaltyUsd = 350,
       baseEmissionsPenaltyTonsCO2e = 2 / 100,
       haulDistanceThresholdKm = 40,
       haulCostPenaltyUsdPerKm = 4,
       haulEmissionsPenaltyTonsCO2ePerKm = 4 / 10000 \<rparr>"

text \<open>
  \<^verbatim>\<open>resolveAssumption\<close> and \<^verbatim>\<open>resolveBooleanAssumption\<close> return \<^verbatim>\<open>value ?? fallback\<close>. They also
  append a record of the choice to the audit list \<^verbatim>\<open>assumptionsUsed\<close>; that list, which no
  computation reads, is left out of the model, here and in the grid result.
  \<^verbatim>\<open>payload.assumptions?.x\<close> is absent when the object or the field is.
\<close>

definition resolveAssumption :: "'a option \<Rightarrow> 'a \<Rightarrow> 'a" where
  "resolveAssumption v fallback = (case v of None \<Rightarrow> fallback | Some x \<Rightarrow> x)"

definition optionalField :: "'r option \<Rightarrow> ('r \<Rightarrow> 'a option) \<Rightarrow> 'a option" where
  "optionalField obj field = (case obj of None \<Rightarrow> None | Some x \<Rightarrow> field x)"

record NormalizedInput =
  normalizedAssumptions :: NormalizedSensitivityAssumptions
  normalizedPenaltyProxy :: NormalizedPenaltyProxy

definition resolveNormalizedInput :: "SensitivityRequestPayload \<Rightarrow> NormalizedInput" where
  "resolveNormalizedInput payload =
     \<lparr> normalizedAssumptions =
         \<lparr> virginAggregateEmissionsPerKg =
             resolveAssumption (optionalField (assumptions payload) req_virginAggregateEmissionsPerKg)
               (virginAggregateEmissionsPerKg DEFAULT_SENSITIVITY_ASSUMPTIONS),
           virginAggregateCostPerKg =
             resolveAssumption (optionalField (assumptions payload) req_virginAggregateCostPerKg)
               (virginAggregateCostPerKg DEFAULT_SENSITIVITY_ASSUMPTIONS),
           landfillDisposalCostPerKg =
             resolveAssumption (optionalField (assumptions payload) req_landfillDisposalCostPerKg)
               (landfillDisposalCostPerKg DEFAULT_SENSITIVITY_ASSUMPTIONS),
           grinderCapitalCostUsd =
             resolveAssumption (optionalField (assumptions payload) req_grinderCapitalCostUsd)
               (grinderCapitalCostUsd DEFAULT_SENSITIVITY_ASSUMPTIONS),
           runsPerDay =
             resolveAssumption (optionalField (assumptions payload) req_runsPerDay)
               (runsPerDay DEFAULT_SENSITIVITY_ASSUMPTIONS) \<rparr>,
       normalizedPenaltyProxy =
         \<lparr> enabled =
             resolveAssumption (optionalField (expeditePenaltyProxy payload) req_enabled)
               (enabled DEFAULT_EXPEDITE_PENALTY_PROXY),
           specReadiness =
             resolveAssumption (optionalField (expeditePenaltyProxy payload) req_specReadiness)
               (specReadiness DEFAULT_EXPEDITE_PENALTY_PROXY),
           lowSpecReadinessThreshold =
             resolveAssumption (optionalField (expeditePenaltyProxy payload) req_lowSpecReadinessThreshold)
               (lowSpecReadinessThreshold DEFAULT_EXPEDITE_PENALTY_PROXY),
           readinessExponent =
             resolveAssumption (optionalField (expeditePenaltyProxy payload) req_readinessExponent)
               (readinessExponent DEFAULT_EXPEDITE_PENALTY_PROXY),
           baseCostPenaltyUsd =
             resolveAssumption (optionalField (expeditePenaltyProxy payload) req_baseCostPenaltyUsd)
               (baseCostPenaltyUsd DEFAULT_EXPEDITE_PENALTY_PROXY),
           baseEmissionsPenaltyTonsCO2e =
             resolveAssumption (optionalField (expeditePenaltyProxy payload) req_baseEmissionsPenaltyTonsCO2e)
               (baseEmissionsPenaltyTonsCO2e DEFAULT_EXPEDITE_PENALTY_PROXY),
           haulDistanceThresholdKm =
             resolveAssumption (optionalField (expeditePenaltyProxy payload) req_haulDistanceThresholdKm)
               (haulDistanceThresholdKm DEFAULT_EXPEDITE_PENALTY_PROXY),
           haulCostPenaltyUsdPerKm =
             resolveAssumption (optionalField (expeditePenaltyProxy payload) req_haulCostPenaltyUsdPerKm)
               (haulCostPenaltyUsdPerKm DEFAULT_EXPEDITE_PENALTY_PROXY),
           haulEmissionsPenaltyTonsCO2ePerKm =
             resolveAssumption
               (optionalField (expeditePenaltyProxy payload) req_haulEmissionsPenaltyTonsCO2ePerKm)
               (haulEmissionsPenaltyTonsCO2ePerKm DEFAULT_EXPEDITE_PENALTY_PROXY) \<rparr> \<rparr>"

subsection \<open>Range expansion\<close>

text \<open>
  The loop pushes \<open>round(start + idx * step)\<close> for \<open>idx = 0, ..., steps\<close>. With no value
  pushed, \<^verbatim>\<open>values[values.length - 1]\<close> is \<^verbatim>\<open>undefined\<close> and the comparison is false. The
  schema gives \<open>step > 0\<close>; the model is for such ranges (with \<open>step = 0\<close> the source
  divides by zero).
\<close>

definition expandRangeValues :: "NumericRange \<Rightarrow> real list" where
  "expandRangeValues input =
     (let span = range_end input - range_start input;
          steps = \<lfloor>span / range_step input + EPSILON\<rfloor>;
          values = map (\<lambda>idx. round6 (range_start input + of_int idx * range_step input)) [0..steps];
          values' = (if values \<noteq> [] \<and> range_end input - last values > EPSILON
                     then values @ [round6 (range_end input)] else values)
      in uniqueValues values')"

subsection \<open>One grid point\<close>

datatype GrinderAxisMode = Utilization | Throughput

text \<open>
  \<^verbatim>\<open>SensitivityPlotPoint\<close> has the four fields of \<^verbatim>\<open>SensitivityPointInput\<close> and three more;
  it is modelled as its extension. The grinder throughput of a point carries the prefix
  \<open>point\<close>, \<^const>\<open>grinderThroughputKgPerHour\<close> being the field of the cost drivers.
\<close>

record SensitivityPointInput =
  haulDistancePerTripKm :: real
  reuseUptakeRate :: real
  grinderUtilization :: "real option"
  pointGrinderThroughputKgPerHour :: real

record SensitivityPlotPoint = SensitivityPointInput +
  costDeltaUsd :: real
  emissionsAvoidedTonsCO2e :: real
  paybackDays :: "real option"

record SensitivityPointDiagnostics =
  baselineVirginAggregateEmissionsTonsCO2e :: real
  scenarioVirginAggregateEmissionsTonsCO2e :: real
  baselineTotalCostUsd :: real
  scenarioTotalCostUsd :: real
  baselineTotalEmissionsTonsCO2e :: real
  scenarioTotalEmissionsTonsCO2e :: real
  baselineResidualKg :: real
  scenarioResidualKg :: real
  scenarioReuseKg :: real
  scenarioLandfillKg :: real
  baselineDisposalTrips :: int
  scenarioDisposalTrips :: int
  expeditePenaltyCostUsd :: real
  expeditePenaltyEmissionsTonsCO2e :: real

record SensitivityPointComputation =
  point :: SensitivityPlotPoint
  diagnostics :: SensitivityPointDiagnostics

text \<open>The fields of the context carry the prefix \<open>context\<close>.\<close>

record SensitivityContext =
  contextUnitOfWork :: UnitOfWork
  contextCostDrivers :: CostDrivers
  contextSustainabilityDrivers :: SustainabilityDrivers
  contextAssumptions :: NormalizedSensitivityAssumptions
  contextPenaltyProxy :: NormalizedPenaltyProxy

record ExpeditePenaltyResult =
  costPenaltyUsd :: real
  emissionsPenaltyTonsCO2e :: real

definition toCoreUnitOfWork :: "UnitOfWork \<Rightarrow> real \<Rightarrow> UnitOfWork" where
  "toCoreUnitOfWork input haulDistancePerTripKm' =
     \<lparr> inboundMaterial = inboundMaterial input, haulDistancePerTrip = haulDistancePerTripKm' \<rparr>"

definition toCoreCostDrivers :: "CostDrivers \<Rightarrow> real \<Rightarrow> CostDrivers" where
  "toCoreCostDrivers input grinderThroughputKgPerHour' =
     \<lparr> truckCapacity = truckCapacity input,
       haulCostPerKm = haulCostPerKm input,
       laborCostPerHour = laborCostPerHour input,
       crusherProcessingCostPerKg = crusherProcessingCostPerKg input,
       grinderProcessingCostPerKg = grinderProcessingCostPerKg input,
       crusherThroughputKgPerHour = crusherThroughputKgPerHour input,
       grinderThroughputKgPerHour = grinderThroughputKgPerHour' \<rparr>"

definition toCoreSustainabilityDrivers :: "SustainabilityDrivers \<Rightarrow> SustainabilityDrivers" where
  "toCoreSustainabilityDrivers input =
     \<lparr> haulEmissionsPerKm = haulEmissionsPerKm input,
       crusherEmissionsPerKg = crusherEmissionsPerKg input,
       grinderEmissionsPerKg = grinderEmissionsPerKg input,
       crusherRecoveryRate = crusherRecoveryRate input,
       grinderRecoveryRate = grinderRecoveryRate input \<rparr>"

text \<open>
  \<^verbatim>\<open>base ** exponent\<close> for a base that is not negative: 1 for the exponent 0, the real
  power otherwise (0 for the base 0 and a positive exponent).
\<close>

definition numberPow :: "real \<Rightarrow> real \<Rightarrow> real" where
  "numberPow base exponent = (if exponent = 0 then 1 else base powr exponent)"

definition computeExpeditePenaltyProxy :: "real \<Rightarrow> NormalizedPenaltyProxy \<Rightarrow> ExpeditePenaltyResult" where
  "computeExpeditePenaltyProxy haulDistancePerTripKm' proxy =
     (if \<not> enabled proxy then \<lparr> costPenaltyUsd = 0, emissionsPenaltyTonsCO2e = 0 \<rparr>
      else
        (let thresholdBase = max (lowSpecReadinessThreshold proxy) EPSILON;
             readinessGap = max 0 (lowSpecReadinessThreshold proxy - specReadiness proxy);
             readinessFactor = numberPow (readinessGap / thresholdBase) (readinessExponent proxy);
             haulExcessKm = max 0 (haulDistancePerTripKm' - haulDistanceThresholdKm proxy);
             haulScale = 1 + haulExcessKm / max (haulDistanceThresholdKm proxy) 1;
             costPenaltyUsd' =
               baseCostPenaltyUsd proxy * readinessFactor * haulScale
               + haulExcessKm * haulCostPenaltyUsdPerKm proxy;
             emissionsPenaltyTonsCO2e' =
               baseEmissionsPenaltyTonsCO2e proxy * readinessFactor * haulScale
               + haulExcessKm * haulEmissionsPenaltyTonsCO2ePerKm proxy
         in \<lparr> costPenaltyUsd = costPenaltyUsd',
              emissionsPenaltyTonsCO2e = emissionsPenaltyTonsCO2e' \<rparr>))"

text \<open>
  \<^verbatim>\<open>computeSensitivityPoint\<close> runs the simulation twice, crusher then grinder, with the
  default truck speed and load/unload hours; an error of either run is the error of the
  point. The divisions by the truck capacity come after the simulation has checked that
  it is positive.
\<close>

definition computeSensitivityPoint ::
  "SensitivityPointInput \<Rightarrow> SensitivityContext \<Rightarrow> error + SensitivityPointComputation" where
  "computeSensitivityPoint input context =
     (let unitOfWork' = toCoreUnitOfWork (contextUnitOfWork context) (haulDistancePerTripKm input);
          costDrivers' = toCoreCostDrivers (contextCostDrivers context)
                           (pointGrinderThroughputKgPerHour input);
          sustainabilityDrivers' = toCoreSustainabilityDrivers (contextSustainabilityDrivers context)
      in
      (case simulatePanelFlow unitOfWork' costDrivers' sustainabilityDrivers'
              \<lparr> useCrusher = True,
                truckSpeedKmPerHour = Some DEFAULT_TRUCK_SPEED_KM_PER_HOUR,
                loadUnloadHoursPerTrip = Some DEFAULT_LOAD_UNLOAD_HOURS_PER_TRIP \<rparr> of
         Inl e \<Rightarrow> Inl e
       | Inr baselineSimulation \<Rightarrow>
      (case simulatePanelFlow unitOfWork' costDrivers' sustainabilityDrivers'
              \<lparr> useCrusher = False,
                truckSpeedKmPerHour = Some DEFAULT_TRUCK_SPEED_KM_PER_HOUR,
                loadUnloadHoursPerTrip = Some DEFAULT_LOAD_UNLOAD_HOURS_PER_TRIP \<rparr> of
         Inl e \<Rightarrow> Inl e
       | Inr scenarioSimulation \<Rightarrow>
      (let inboundKg = inboundMaterial (contextUnitOfWork context);
           truckCapacityKg = truckCapacity (contextCostDrivers context);
           baselineRecoveredKg = materialRecovered baselineSimulation;
           scenarioRecoveredKg = materialRecovered scenarioSimulation;
           baselineResidualKg' = max 0 (inboundKg - baselineRecoveredKg);
           scenarioResidualKg' = max 0 (inboundKg - scenarioRecoveredKg);
           scenarioReuseKg' = scenarioResidualKg' * reuseUptakeRate input;
           scenarioLandfillKg' = max 0 (scenarioResidualKg' - scenarioReuseKg');
           baselineDisposalTrips' = \<lceil>baselineResidualKg' / truckCapacityKg\<rceil>;
           scenarioDisposalTrips' = \<lceil>scenarioLandfillKg' / truckCapacityKg\<rceil>;
           baselineDisposalDistanceKm = of_int baselineDisposalTrips' * haulDistancePerTripKm input;
           scenarioDisposalDistanceKm = of_int scenarioDisposalTrips' * haulDistancePerTripKm input;
           baselineDisposalHaulCostUsd =
             baselineDisposalDistanceKm * haulCostPerKm (contextCostDrivers context);
           scenarioDisposalHaulCostUsd =
             scenarioDisposalDistanceKm * haulCostPerKm (contextCostDrivers context);
           baselineDisposalHaulEmissionsTonsCO2e =
             baselineDisposalDistanceKm * haulEmissionsPerKm (contextSustainabilityDrivers context);
           scenarioDisposalHaulEmissionsTonsCO2e =
             scenarioDisposalDistanceKm * haulEmissionsPerKm (contextSustainabilityDrivers context);
           baselineVirginAggregateKg = inboundKg;
           scenarioVirginAggregateKg = max 0 (inboundKg - scenarioReuseKg');
           baselineVirginAggregateEmissionsTonsCO2e' =
             baselineVirginAggregateKg * virginAggregateEmissionsPerKg (contextAssumptions context);
           scenarioVirginAggregateEmissionsTonsCO2e' =
             scenarioVirginAggregateKg * virginAggregateEmissionsPerKg (contextAssumptions context);
           baselineVirginAggregateCostUsd =
             baselineVirginAggregateKg * virginAggregateCostPerKg (contextAssumptions context);
           scenarioVirginAggregateCostUsd =
             scenarioVirginAggregateKg * virginAggregateCostPerKg (contextAssumptions context);
           baselineDisposalCostUsd =
             baselineResidualKg' * landfillDisposalCostPerKg (contextAssumptions context);
           scenarioDisposalCostUsd =
             scenarioLandfillKg' * landfillDisposalCostPerKg (contextAssumptions context);
           expeditePenalty =
             computeExpeditePenaltyProxy (haulDistancePerTripKm input) (contextPenaltyProxy context);
           baselineTotalCostUsd' =
             totalCost baselineSimulation + baselineDisposalHaulCostUsd + baselineDisposalCostUsd
               + baselineVirginAggregateCostUsd;
           scenarioTotalCostUsd' =
             totalCost scenarioSimulation + scenarioDisposalHaulCostUsd + scenarioDisposalCostUsd
               + scenarioVirginAggregateCostUsd + costPenaltyUsd expeditePenalty;
           baselineTotalEmissionsTonsCO2e' =
             totalEmissions baselineSimulation + baselineDisposalHaulEmissionsTonsCO2e
               + baselineVirginAggregateEmissionsTonsCO2e';
           scenarioTotalEmissionsTonsCO2e' =
             totalEmissions scenarioSimulation + scenarioDisposalHaulEmissionsTonsCO2e
               + scenarioVirginAggregateEmissionsTonsCO2e' + emissionsPenaltyTonsCO2e expeditePenalty;
           costDeltaUsd' = scenarioTotalCostUsd' - baselineTotalCostUsd';
           emissionsAvoidedTonsCO2e' =
             baselineTotalEmissionsTonsCO2e' - scenarioTotalEmissionsTonsCO2e';
           dailySavingsUsd =
             (baselineTotalCostUsd' - scenarioTotalCostUsd') * runsPerDay (contextAssumptions context);
           paybackDays' =
             (if dailySavingsUsd > 0
              then Some (grinderCapitalCostUsd (contextAssumptions context) / dailySavingsUsd)
              else None)
       in Inr
         \<lparr> point =
             \<lparr> haulDistancePerTripKm = round6 (haulDistancePerTripKm input),
               reuseUptakeRate = round6 (reuseUptakeRate input),
               grinderUtilization =
                 (case grinderUtilization input of None \<Rightarrow> None | Some g \<Rightarrow> Some (round6 g)),
               pointGrinderThroughputKgPerHour = round6 (pointGrinderThroughputKgPerHour input),
               costDeltaUsd = round6 costDeltaUsd',
               emissionsAvoidedTonsCO2e = round6 emissionsAvoidedTonsCO2e',
               paybackDays = roundNullable paybackDays' \<rparr>,
           diagnostics =
             \<lparr> baselineVirginAggregateEmissionsTonsCO2e =
                 round6 baselineVirginAggregateEmissionsTonsCO2e',
               scenarioVirginAggregateEmissionsTonsCO2e =
                 round6 scenarioVirginAggregateEmissionsTonsCO2e',
               baselineTotalCostUsd = round6 baselineTotalCostUsd',
               scenarioTotalCostUsd = round6 scenarioTotalCostUsd',
               baselineTotalEmissionsTonsCO2e = round6 baselineTotalEmissionsTonsCO2e',
               scenarioTotalEmissionsTonsCO2e = round6 scenarioTotalEmissionsTonsCO2e',
               baselineResidualKg = round6 baselineResidualKg',
               scenarioResidualKg = round6 scenarioResidualKg',
               scenarioReuseKg = round6 scenarioReuseKg',
               scenarioLandfillKg = round6 scenarioLandfillKg',
               baselineDisposalTrips = baselineDisposalTrips',
               scenarioDisposalTrips = scenarioDisposalTrips',
               expeditePenaltyCostUsd = round6 (costPenaltyUsd expeditePenalty),
               expeditePenaltyEmissionsTonsCO2e =
                 round6 (emissionsPenaltyTonsCO2e expeditePenalty) \<rparr> \<rparr>))))"

subsection \<open>The grid\<close>

record SensitivityAxes =
  axisHaulDistancePerTripKm :: "real list"
  axisReuseUptakeRate :: "real list"
  grinderAxisValues :: "real list"

text \<open>
  The field \<^verbatim>\<open>points\<close> of the grid result is \<open>gridPoints\<close> here, \<^const>\<open>points\<close> being the
  field of an investment scenario.
\<close>

record SensitivityGridResult =
  axisMode :: GrinderAxisMode
  axes :: SensitivityAxes
  gridPoints :: "SensitivityPointComputation list"
  penaltyProxy :: NormalizedPenaltyProxy

text \<open>
  The three nested \<^verbatim>\<open>for\<close> loops visit the inputs in this order: haul distance outermost,
  then reuse rate, then the grinder axis.
\<close>

definition gridInputs ::
  "GrinderAxisMode \<Rightarrow> real \<Rightarrow> real list \<Rightarrow> real list \<Rightarrow> real list \<Rightarrow> SensitivityPointInput list" where
  "gridInputs mode nominalThroughput haulDistanceValues reuseValues axisValues =
     concat (map (\<lambda>haulDistancePerTripKm'.
       concat (map (\<lambda>reuseUptakeRate'.
         map (\<lambda>grinderAxisValue.
                \<lparr> haulDistancePerTripKm = haulDistancePerTripKm',
                  reuseUptakeRate = reuseUptakeRate',
                  grinderUtilization = (if mode = Utilization then Some grinderAxisValue else None),
                  pointGrinderThroughputKgPerHour =
                    (if mode = Utilization then nominalThroughput * grinderAxisValue
                     else grinderAxisValue) \<rparr>)
             axisValues)
         reuseValues))
       haulDistanceValues)"

text \<open>
  The body of the loops, \<^verbatim>\<open>points.push(computeSensitivityPoint(...))\<close>, over the inputs in
  order, stopping at the first error. The first component of the result is
  instrumentation that the source does not have: the number of calls of
  \<^verbatim>\<open>computeSensitivityPoint\<close> made.
\<close>

fun computePoints ::
  "SensitivityPointInput list \<Rightarrow> SensitivityContext
     \<Rightarrow> nat \<times> (error + SensitivityPointComputation list)" where
  "computePoints [] context = (0, Inr [])"
| "computePoints (input # rest) context =
     (case computeSensitivityPoint input context of
        Inl e \<Rightarrow> (1, Inl e)
      | Inr p \<Rightarrow>
          (case computePoints rest context of
             (n, Inl e) \<Rightarrow> (Suc n, Inl e)
           | (n, Inr ps) \<Rightarrow> (Suc n, Inr (p # ps))))"

text \<open>The object bound to \<^verbatim>\<open>context\<close> in \<^verbatim>\<open>buildSensitivityGrid\<close>.\<close>

definition gridContext :: "SensitivityRequestPayload \<Rightarrow> NormalizedInput \<Rightarrow> SensitivityContext" where
  "gridContext payload normalized =
     \<lparr> contextUnitOfWork = unitOfWork payload,
       contextCostDrivers = costDrivers payload,
       contextSustainabilityDrivers = sustainabilityDrivers payload,
       contextAssumptions = normalizedAssumptions normalized,
       contextPenaltyProxy = normalizedPenaltyProxy normalized \<rparr>"

text \<open>
  \<^verbatim>\<open>payload.ranges.grinderUtilization ?? payload.ranges.grinderThroughputKgPerHour!\<close> is
  \<^verbatim>\<open>undefined\<close> when both ranges are absent, and \<^verbatim>\<open>expandRangeValues\<close> then throws a
  \<^verbatim>\<open>TypeError\<close> on reading \<^verbatim>\<open>input.end\<close>. The result is paired with the number of point
  computations made.
\<close>

definition buildSensitivityGrid ::
  "SensitivityRequestPayload \<Rightarrow> nat \<times> (error + SensitivityGridResult)" where
  "buildSensitivityGrid payload =
     (let normalized = resolveNormalizedInput payload;
          haulDistanceValues = expandRangeValues (haulDistancePerTripRange (ranges payload));
          reuseValues = expandRangeValues (reuseUptakeRateRange (ranges payload));
          axisMode' = (if grinderUtilizationRange (ranges payload) \<noteq> None
                       then Utilization else Throughput)
      in
      (case (case grinderUtilizationRange (ranges payload) of
               None \<Rightarrow> grinderThroughputKgPerHourRange (ranges payload)
             | Some r \<Rightarrow> Some r) of
         None \<Rightarrow> (0, Inl (Error ''TypeError: Cannot read properties of undefined''))
       | Some grinderRange \<Rightarrow>
          (let grinderAxisValues' = expandRangeValues grinderRange;
               gridPointCount =
                 length haulDistanceValues * length reuseValues * length grinderAxisValues'
           in if gridPointCount > MAX_GRID_POINTS
              then (0, Inl (GridTooLarge gridPointCount MAX_GRID_POINTS))
              else
                (let context = gridContext payload normalized
                 in (case computePoints
                            (gridInputs axisMode'
                               (grinderThroughputKgPerHour (costDrivers payload))
                               haulDistanceValues reuseValues grinderAxisValues')
                            context of
                       (n, Inl e) \<Rightarrow> (n, Inl e)
                     | (n, Inr points') \<Rightarrow>
                         (n, Inr \<lparr> axisMode = axisMode',
                                   axes = \<lparr> axisHaulDistancePerTripKm = haulDistanceValues,
                                            axisReuseUptakeRate = reuseValues,
                                            grinderAxisValues = grinderAxisValues' \<rparr>,
                                   gridPoints = points',
                                   penaltyProxy = normalizedPenaltyProxy normalized \<rparr>))))))"

text \<open>
  The value of the grinder axis at a reported point: its utilization in utilization mode,
  its throughput in throughput mode.
\<close>

definition grinderAxisValueOf :: "GrinderAxisMode \<Rightarrow> SensitivityPlotPoint \<Rightarrow> real option" where
  "grinderAxisValueOf mode p =
     (case mode of
        Utilization \<Rightarrow> grinderUtilization p
      | Throughput \<Rightarrow> Some (pointGrinderThroughputKgPerHour p))"

text \<open>
  The payload of the repository's test "shows non-increasing virgin aggregate emissions as
  reuse increases" (\<^verbatim>\<open>basePayload\<close> with the ranges and the proxy of that test).
\<close>

definition monotonicityTestPayload :: SensitivityRequestPayload where
  "monotonicityTestPayload =
     \<lparr> unitOfWork = \<lparr> inboundMaterial = 10000, haulDistancePerTrip = 30 \<rparr>,
       costDrivers =
         \<lparr> truckCapacity = 2000, haulCostPerKm = 3, laborCostPerHour = 40,
           crusherProcessingCostPerKg = 2 / 100, grinderProcessingCostPerKg = 3 / 100,
           crusherThroughputKgPerHour = 2500, grinderThroughputKgPerHour = 2000 \<rparr>,
       sustainabilityDrivers =
         \<lparr> haulEmissionsPerKm = 1 / 1000, crusherEmissionsPerKg = 4 / 100000,
           grinderEmissionsPerKg = 6 / 100000, crusherRecoveryRate = 82 / 100,
           grinderRecoveryRate = 75 / 100 \<rparr>,
       ranges =
         \<lparr> haulDistancePerTripRange = \<lparr> range_start = 30, range_end = 30, range_step = 1 \<rparr>,
           reuseUptakeRateRange = \<lparr> range_start = 0, range_end = 1, range_step = 1 / 2 \<rparr>,
           grinderUtilizationRange =
             Some \<lparr> range_start = 1, range_end = 1, range_step = 1 / 10 \<rparr>,
           grinderThroughputKgPerHourRange = None \<rparr>,
       assumptions = None,
       expeditePenaltyProxy =
         Some \<lparr> req_enabled = Some False, req_specReadiness = None,
                req_lowSpecReadinessThreshold = None, req_readinessExponent = None,
                req_baseCostPenaltyUsd = None, req_baseEmissionsPenaltyTonsCO2e = None,
                req_haulDistanceThresholdKm = None, req_haulCostPenaltyUsdPerKm = None,
                req_haulEmissionsPenaltyTonsCO2ePerKm = None \<rparr> \<rparr>"

section \<open>Properties of the simulation\<close>

lemma simulatePanelFlow_returns:
  assumes "simulationChecksPass u c s opts"
  shows "\<exists>r. simulatePanelFlow u c s opts = Inr r"
  using assms
  unfolding simulationChecksPass_def simulatePanelFlow_def validatePositive_def validateRate_def
  by (simp add: Let_def)

lemma simulatePanelFlow_Inr_checks:
  assumes "simulatePanelFlow u c s opts = Inr r"
  shows "simulationChecksPass u c s opts"
  using assms
  unfolding simulationChecksPass_def simulatePanelFlow_def validatePositive_def validateRate_def
  by (simp add: Let_def split: if_splits)





lemma simulationChecksPass_iff:
  "simulationChecksPass u c s opts \<longleftrightarrow> \<not> (
     (case truckSpeedKmPerHour opts of None \<Rightarrow> DEFAULT_TRUCK_SPEED_KM_PER_HOUR | Some v \<Rightarrow> v) \<le> 0 \<or>
     (case loadUnloadHoursPerTrip opts of None \<Rightarrow> DEFAULT_LOAD_UNLOAD_HOURS_PER_TRIP | Some v \<Rightarrow> v) \<le> 0 \<or>
     truckCapacity c \<le> 0 \<or> inboundMaterial u \<le> 0 \<or> haulDistancePerTrip u \<le> 0 \<or>
     crusherRecoveryRate s < 0 \<or> 1 < crusherRecoveryRate s \<or>
     grinderRecoveryRate s < 0 \<or> 1 < grinderRecoveryRate s \<or>
     (if useCrusher opts then crusherThroughputKgPerHour c else grinderThroughputKgPerHour c) \<le> 0)"
  unfolding simulationChecksPass_def by (simp only: de_Morgan_disj not_le not_less conj_assoc)

lemma fails_iff_not_checks:
  "(\<exists>e. simulatePanelFlow u c s opts = Inl e) \<longleftrightarrow> \<not> simulationChecksPass u c s opts"
proof
  assume "\<exists>e. simulatePanelFlow u c s opts = Inl e"
  then show "\<not> simulationChecksPass u c s opts"
    using simulatePanelFlow_returns [of u c s opts] by auto
next
  assume n: "\<not> simulationChecksPass u c s opts"
  show "\<exists>e. simulatePanelFlow u c s opts = Inl e"
  proof (cases "simulatePanelFlow u c s opts")
    case (Inl e)
    then show ?thesis by blast
  next
    case (Inr r)
    with n simulatePanelFlow_Inr_checks show ?thesis by blast
  qed
qed

text \<open>
  C2 (as the code has it). \<^const>\<open>simulatePanelFlow\<close> fails with a validation error exactly
  when one of its own checks fails: truck speed, load/unload hours, truck capacity,
  inbound material or haul distance not positive, a recovery rate outside [0, 1], or the
  throughput of the selected mode not positive. The haul cost, the labour cost, the
  processing costs, the emission factors and the throughput of the mode that is not
  selected are not checked.
\<close>

theorem simulatePanelFlow_fails_iff:
  "(\<exists>e. simulatePanelFlow u c s opts = Inl e) \<longleftrightarrow>
     (case truckSpeedKmPerHour opts of None \<Rightarrow> DEFAULT_TRUCK_SPEED_KM_PER_HOUR | Some v \<Rightarrow> v) \<le> 0 \<or>
     (case loadUnloadHoursPerTrip opts of None \<Rightarrow> DEFAULT_LOAD_UNLOAD_HOURS_PER_TRIP | Some v \<Rightarrow> v) \<le> 0 \<or>
     truckCapacity c \<le> 0 \<or> inboundMaterial u \<le> 0 \<or> haulDistancePerTrip u \<le> 0 \<or>
     crusherRecoveryRate s < 0 \<or> 1 < crusherRecoveryRate s \<or>
     grinderRecoveryRate s < 0 \<or> 1 < grinderRecoveryRate s \<or>
     (if useCrusher opts then crusherThroughputKgPerHour c else grinderThroughputKgPerHour c) \<le> 0"
  unfolding fails_iff_not_checks simulationChecksPass_iff by (rule not_not)


text \<open>
  C2 as stated fails: with a negative haul cost, labour cost and crusher processing cost
  the call returns a result (of total cost -1010) and no validation error.
\<close>

theorem simulatePanelFlow_negative_costs_counterexample:
  "simulatePanelFlow (makeUnitOfWork 10000 30)
      \<lparr> truckCapacity = 2000, haulCostPerKm = - 3, laborCostPerHour = - 40,
        crusherProcessingCostPerKg = - (2 / 100), grinderProcessingCostPerKg = 3 / 100,
        crusherThroughputKgPerHour = 2500, grinderThroughputKgPerHour = 2000 \<rparr>
      \<lparr> haulEmissionsPerKm = 1 / 1000, crusherEmissionsPerKg = 4 / 100000,
        grinderEmissionsPerKg = 6 / 100000, crusherRecoveryRate = 82 / 100,
        grinderRecoveryRate = 75 / 100 \<rparr>
      \<lparr> useCrusher = True, truckSpeedKmPerHour = Some 60,
        loadUnloadHoursPerTrip = Some (5 / 10) \<rparr>
    = Inr \<lparr> totalCost = - 1010, totalTime = 9, totalEmissions = 55 / 100,
            truckTrips = 5, materialRecovered = 8200 \<rparr>"
  by (simp add: simulatePanelFlow_def makeUnitOfWork_def validatePositive_def
      validateRate_def Let_def)

text \<open>
  C3 (as the code has it). In the known scenario the total emissions depend on the haul
  emission factor, which the scenario's list leaves out, and both recovery rates are
  checked whatever the mode. With a haul emission factor of 0.001 tCO2e/km (the value of
  the repository's test) and a grinder recovery rate within [0, 1], the crusher run
  returns 5 trips, 9 hours, 1010 USD, 0.55 tCO2e and 8200 kg recovered, whatever the
  other grinder parameters are.
\<close>

theorem simulatePanelFlow_known_scenario:
  assumes "0 \<le> gr" and "gr \<le> 1"
  shows "simulatePanelFlow
      \<lparr> inboundMaterial = 10000, haulDistancePerTrip = 30 \<rparr>
      \<lparr> truckCapacity = 2000, haulCostPerKm = 3, laborCostPerHour = 40,
        crusherProcessingCostPerKg = 2 / 100, grinderProcessingCostPerKg = gc,
        crusherThroughputKgPerHour = 2500, grinderThroughputKgPerHour = gt \<rparr>
      \<lparr> haulEmissionsPerKm = 1 / 1000, crusherEmissionsPerKg = 4 / 100000,
        grinderEmissionsPerKg = ge, crusherRecoveryRate = 82 / 100,
        grinderRecoveryRate = gr \<rparr>
      \<lparr> useCrusher = True, truckSpeedKmPerHour = Some 60,
        loadUnloadHoursPerTrip = Some (5 / 10) \<rparr>
    = Inr \<lparr> totalCost = 1010, totalTime = 9, totalEmissions = 55 / 100,
            truckTrips = 5, materialRecovered = 8200 \<rparr>"
  using assms
  by (simp add: simulatePanelFlow_def validatePositive_def validateRate_def Let_def)

theorem simulatePanelFlow_known_scenario_witness:
  "(0::real) \<le> 75 / 100 \<and> (75::real) / 100 \<le> 1 \<and>
   simulatePanelFlow
      \<lparr> inboundMaterial = 10000, haulDistancePerTrip = 30 \<rparr>
      \<lparr> truckCapacity = 2000, haulCostPerKm = 3, laborCostPerHour = 40,
        crusherProcessingCostPerKg = 2 / 100, grinderProcessingCostPerKg = 3 / 100,
        crusherThroughputKgPerHour = 2500, grinderThroughputKgPerHour = 2000 \<rparr>
      \<lparr> haulEmissionsPerKm = 1 / 1000, crusherEmissionsPerKg = 4 / 100000,
        grinderEmissionsPerKg = 6 / 100000, crusherRecoveryRate = 82 / 100,
        grinderRecoveryRate = 75 / 100 \<rparr>
      \<lparr> useCrusher = True, truckSpeedKmPerHour = Some 60,
        loadUnloadHoursPerTrip = Some (5 / 10) \<rparr>
    = Inr \<lparr> totalCost = 1010, totalTime = 9, totalEmissions = 55 / 100,
            truckTrips = 5, materialRecovered = 8200 \<rparr>"
proof -
  have a: "(0::real) \<le> 75 / 100" and b: "(75::real) / 100 \<le> 1" by simp_all
  from simulatePanelFlow_known_scenario [OF a b, of "3 / 100" 2000 "6 / 100000"] a b
  show ?thesis by blast
qed

text \<open>
  C3 as stated fails: the scenario's list fixes no haul emission factor, and with a
  factor of 0 the same run returns 0.4 tCO2e, not 0.55.
\<close>

theorem simulatePanelFlow_known_scenario_counterexample:
  "simulatePanelFlow
      \<lparr> inboundMaterial = 10000, haulDistancePerTrip = 30 \<rparr>
      \<lparr> truckCapacity = 2000, haulCostPerKm = 3, laborCostPerHour = 40,
        crusherProcessingCostPerKg = 2 / 100, grinderProcessingCostPerKg = 3 / 100,
        crusherThroughputKgPerHour = 2500, grinderThroughputKgPerHour = 2000 \<rparr>
      \<lparr> haulEmissionsPerKm = 0, crusherEmissionsPerKg = 4 / 100000,
        grinderEmissionsPerKg = 6 / 100000, crusherRecoveryRate = 82 / 100,
        grinderRecoveryRate = 75 / 100 \<rparr>
      \<lparr> useCrusher = True, truckSpeedKmPerHour = Some 60,
        loadUnloadHoursPerTrip = Some (5 / 10) \<rparr>
    = Inr \<lparr> totalCost = 1010, totalTime = 9, totalEmissions = 4 / 10,
            truckTrips = 5, materialRecovered = 8200 \<rparr> \<and>
   (4::real) / 10 \<noteq> 55 / 100"
  by (simp add: simulatePanelFlow_def validatePositive_def validateRate_def Let_def)

section \<open>Properties of the environmental KPIs\<close>




section \<open>Properties of the payback period\<close>



lemma payback_crossing_flow_positive:
  fixes cf :: "real list"
  assumes "1 \<le> i" and "i < length cf"
    and "sum_list (take i cf) < 0" and "0 \<le> sum_list (take (Suc i) cf)"
  shows "0 < cf ! i"
proof -
  have "sum_list (take (Suc i) cf) = sum_list (take i cf) + cf ! i"
    using assms(2) by (simp add: take_Suc_conv_app_nth)
  with assms(3,4) show ?thesis by linarith
qed




section \<open>Properties of NPV and IRR\<close>

text \<open>Above \<open>-1\<close> the fold of \<^const>\<open>NPV\<close> is the specification's sum and nothing is raised.\<close>

lemma foldl_enumerate_sum:
  fixes b :: real
  shows "foldl (\<lambda>acc (i, c). acc + c / b ^ i) a (enumerate n xs)
           = a + (\<Sum>i<length xs. xs ! i / b ^ (n + i))"
proof (induction xs arbitrary: a n)
  case Nil
  then show ?case by simp
next
  case (Cons x xs)
  have "(\<Sum>i<Suc (length xs). (x # xs) ! i / b ^ (n + i))
          = (x # xs) ! 0 / b ^ (n + 0) + (\<Sum>i<length xs. (x # xs) ! Suc i / b ^ (n + Suc i))"
    by (rule sum.lessThan_Suc_shift)
  then have "(\<Sum>i<length (x # xs). (x # xs) ! i / b ^ (n + i))
          = x / b ^ n + (\<Sum>i<length xs. xs ! i / b ^ (Suc n + i))"
    by simp
  with Cons.IH [of "a + x / b ^ n" "Suc n"] show ?case by (simp add: add.assoc)
qed

lemma NPV_npvSum:
  assumes "- 1 < r"
  shows "NPV r cf = Inr (npvSum r cf)"
  using assms by (simp add: NPV_def npvSum_def foldl_enumerate_sum)

lemma NPV_three:
  "- 1 < r \<Longrightarrow> NPV r [a, b, c] = Inr (a + b / (1 + r) + c / ((1 + r) * (1 + r)))"
  by (simp add: NPV_def enumerate_eq_zip upt_rec power2_eq_square)

lemma expandBracket_spec:
  assumes "e \<le> 20" and "fHigh = npvSum (2 ^ e) cf"
  shows "\<exists>k rates'. expandBracket cf fLow (2 ^ e) fHigh e rates
                      = Inr (2 ^ k, npvSum (2 ^ k) cf, rates') \<and>
           e \<le> k \<and> k \<le> 20 \<and>
           (\<forall>j. e \<le> j \<and> j < k \<longrightarrow> fLow * npvSum (2 ^ j) cf > 0) \<and>
           (k < 20 \<longrightarrow> \<not> fLow * npvSum (2 ^ k) cf > 0) \<and>
           (\<forall>r\<in>set rates'. r \<in> set rates \<or> (\<exists>j\<le>20. r = 2 ^ j))"
  using assms
proof (induction "20 - e" arbitrary: e fHigh rates)
  case 0
  then have e: "\<not> e < 20" by simp
  have "expandBracket cf fLow (2 ^ e) fHigh e rates = Inr (2 ^ e, fHigh, rates)"
    by (subst expandBracket.simps) (simp add: e)
  with "0.prems" e show ?case
    by (intro exI [of _ e] exI [of _ rates]) simp
next
  case (Suc n)
  then have lt: "e < 20" by simp
  show ?case
  proof (cases "fLow * fHigh > 0")
    case False
    have "expandBracket cf fLow (2 ^ e) fHigh e rates = Inr (2 ^ e, fHigh, rates)"
      by (subst expandBracket.simps) (simp add: False)
    with False Suc.prems lt show ?thesis by auto
  next
    case True
    have pos: "- 1 < (2::real) ^ e * 2"
      by (rule less_trans [of _ 0]) simp_all
    have unfold: "expandBracket cf fLow (2 ^ e) fHigh e rates
            = expandBracket cf fLow (2 ^ Suc e) (npvSum (2 ^ Suc e) cf) (Suc e) (rates @ [2 ^ Suc e])"
      using True lt pos
      by (subst expandBracket.simps) (simp add: Let_def NPV_npvSum mult.commute)
    have "\<exists>k rates'. expandBracket cf fLow (2 ^ Suc e) (npvSum (2 ^ Suc e) cf) (Suc e) (rates @ [2 ^ Suc e])
                      = Inr (2 ^ k, npvSum (2 ^ k) cf, rates') \<and>
           Suc e \<le> k \<and> k \<le> 20 \<and>
           (\<forall>j. Suc e \<le> j \<and> j < k \<longrightarrow> fLow * npvSum (2 ^ j) cf > 0) \<and>
           (k < 20 \<longrightarrow> \<not> fLow * npvSum (2 ^ k) cf > 0) \<and>
           (\<forall>r\<in>set rates'. r \<in> set (rates @ [2 ^ Suc e]) \<or> (\<exists>j\<le>20. r = 2 ^ j))"
      using Suc.hyps(2) lt by (intro Suc.hyps(1)) simp_all
    then obtain k rates' where k:
      "expandBracket cf fLow (2 ^ Suc e) (npvSum (2 ^ Suc e) cf) (Suc e) (rates @ [2 ^ Suc e])
                      = Inr (2 ^ k, npvSum (2 ^ k) cf, rates')"
      "Suc e \<le> k" "k \<le> 20"
      "\<forall>j. Suc e \<le> j \<and> j < k \<longrightarrow> fLow * npvSum (2 ^ j) cf > 0"
      "k < 20 \<longrightarrow> \<not> fLow * npvSum (2 ^ k) cf > 0"
      "\<forall>r\<in>set rates'. r \<in> set (rates @ [2 ^ Suc e]) \<or> (\<exists>j\<le>20. r = 2 ^ j)"
      by blast
    have all: "\<forall>j. e \<le> j \<and> j < k \<longrightarrow> fLow * npvSum (2 ^ j) cf > 0"
    proof (intro allI impI)
      fix j assume j: "e \<le> j \<and> j < k"
      show "fLow * npvSum (2 ^ j) cf > 0"
      proof (cases "j = e")
        case True
        with \<open>fLow * fHigh > 0\<close> Suc.prems(2) show ?thesis by simp
      next
        case False
        with j have "Suc e \<le> j \<and> j < k" by simp
        with k(4) show ?thesis by blast
      qed
    qed
    have rs: "\<forall>r\<in>set rates'. r \<in> set rates \<or> (\<exists>j\<le>20. r = 2 ^ j)"
    proof
      fix r assume "r \<in> set rates'"
      with k(6) have "r \<in> set (rates @ [2 ^ Suc e]) \<or> (\<exists>j\<le>20. r = 2 ^ j)" by blast
      then have "r \<in> set rates \<or> r = 2 ^ Suc e \<or> (\<exists>j\<le>20. r = 2 ^ j)" by auto
      moreover have "Suc e \<le> 20" using lt by simp
      ultimately show "r \<in> set rates \<or> (\<exists>j\<le>20. r = 2 ^ j)" by blast
    qed
    from k(1,2,3,5) all rs unfold show ?thesis
      by (intro exI [of _ k] exI [of _ rates']) auto
  qed
qed



lemma bisect_bounds:
  assumes "- 1 < low" and "low < high"
  shows "\<exists>x rates'. bisect cf M tol i low high fLow fHigh rates = Inr (Some x, rates') \<and>
           low < x \<and> x < high \<and>
           (\<forall>r\<in>set rates'. r \<in> set rates \<or> (low < r \<and> r < high))"
  using assms
proof (induction "M - i" arbitrary: i low high fLow fHigh rates)
  case 0
  then have iM: "\<not> i < M" by simp
  have "bisect cf M tol i low high fLow fHigh rates = Inr (Some ((low + high) / 2), rates)"
    by (subst bisect.simps) (simp add: iM)
  moreover have "low < (low + high) / 2" and "(low + high) / 2 < high"
    using "0.prems" by simp_all
  ultimately show ?case
    by (intro exI [of _ "(low + high) / 2"] exI [of _ rates]) simp
next
  case (Suc n)
  then have lt: "i < M" by simp
  define mid where "mid = (low + high) / 2"
  have mid_gt: "- 1 < mid" and lm: "low < mid" and mh: "mid < high"
    using Suc.prems by (simp_all add: mid_def)
  show ?case
  proof (cases "\<bar>npvSum mid cf\<bar> < tol")
    case True
    have "bisect cf M tol i low high fLow fHigh rates = Inr (Some mid, rates @ [mid])"
      using lt True mid_gt
      by (subst bisect.simps) (simp add: Let_def mid_def [symmetric] NPV_npvSum)
    with lm mh show ?thesis by auto
  next
    case False
    show ?thesis
    proof (cases "fLow * npvSum mid cf < 0")
      case True
      have unfold: "bisect cf M tol i low high fLow fHigh rates
            = bisect cf M tol (Suc i) low mid fLow (npvSum mid cf) (rates @ [mid])"
        using lt True False mid_gt
        by (subst bisect.simps) (simp add: Let_def mid_def [symmetric] NPV_npvSum)
      have "\<exists>x rates'. bisect cf M tol (Suc i) low mid fLow (npvSum mid cf) (rates @ [mid])
                = Inr (Some x, rates') \<and> low < x \<and> x < mid \<and>
              (\<forall>r\<in>set rates'. r \<in> set (rates @ [mid]) \<or> (low < r \<and> r < mid))"
        using Suc.hyps(2) Suc.prems(1) lm by (intro Suc.hyps(1)) simp_all
      then obtain x rates' where x:
        "bisect cf M tol (Suc i) low mid fLow (npvSum mid cf) (rates @ [mid]) = Inr (Some x, rates')"
        "low < x" "x < mid"
        "\<forall>r\<in>set rates'. r \<in> set (rates @ [mid]) \<or> (low < r \<and> r < mid)"
        by blast
      have "\<forall>r\<in>set rates'. r \<in> set rates \<or> (low < r \<and> r < high)"
        using x(4) lm mh by fastforce
      with x(1,2,3) mh unfold show ?thesis
        by (intro exI [of _ x] exI [of _ rates']) simp
    next
      case nlt: False
      have unfold: "bisect cf M tol i low high fLow fHigh rates
            = bisect cf M tol (Suc i) mid high (npvSum mid cf) fHigh (rates @ [mid])"
        using lt nlt False mid_gt
        by (subst bisect.simps) (simp add: Let_def mid_def [symmetric] NPV_npvSum)
      have "\<exists>x rates'. bisect cf M tol (Suc i) mid high (npvSum mid cf) fHigh (rates @ [mid])
                = Inr (Some x, rates') \<and> mid < x \<and> x < high \<and>
              (\<forall>r\<in>set rates'. r \<in> set (rates @ [mid]) \<or> (mid < r \<and> r < high))"
        using Suc.hyps(2) mid_gt mh by (intro Suc.hyps(1)) simp_all
      then obtain x rates' where x:
        "bisect cf M tol (Suc i) mid high (npvSum mid cf) fHigh (rates @ [mid]) = Inr (Some x, rates')"
        "mid < x" "x < high"
        "\<forall>r\<in>set rates'. r \<in> set (rates @ [mid]) \<or> (mid < r \<and> r < high)"
        by blast
      have "\<forall>r\<in>set rates'. r \<in> set rates \<or> (low < r \<and> r < high)"
        using x(4) lm mh by fastforce
      with x(1,2,3) lm unfold show ?thesis
        by (intro exI [of _ x] exI [of _ rates']) simp
    qed
  qed
qed


lemma pos_neg_length:
  fixes cf :: "real list"
  assumes "\<exists>v\<in>set cf. 0 < v" and "\<exists>v\<in>set cf. v < 0"
  shows "\<not> length cf < 2"
proof -
  from assms obtain v w where vw: "v \<in> set cf" "w \<in> set cf" "0 < v" "w < 0" by blast
  then have "v \<noteq> w" by auto
  with vw(1,2) have "card {v, w} \<le> card (set cf)" by (intro card_mono) auto
  also have "card (set cf) \<le> length cf" by (rule card_length)
  finally show ?thesis using \<open>v \<noteq> w\<close> by simp
qed

lemma spec_low_gt: "- 1 < spec_low"
  by (simp add: spec_low_def)

lemma spec_low_lt_pow: "spec_low < 2 ^ k"
proof -
  have "spec_low < 1" by (simp add: spec_low_def)
  also have "(1::real) \<le> 2 ^ k" by simp
  finally show ?thesis .
qed

lemma find_upt_first:
  assumes "k < m" and "P k" and "\<forall>j<k. \<not> P j"
  shows "List.find P [0..<m] = Some k"
proof -
  have "\<exists>i<length [0..<m]. P ([0..<m] ! i) \<and> k = [0..<m] ! i \<and> (\<forall>j<i. \<not> P ([0..<m] ! j))"
    using assms by (intro exI [of _ k]) simp
  then show ?thesis by (simp only: find_Some_iff)
qed

lemma find_upt_none:
  assumes "\<forall>j<m. \<not> P j"
  shows "List.find P [0..<m] = None"
  using assms by (simp add: find_None_iff)

text \<open>The state after the two initial evaluations and the bracket expansion.\<close>

lemma IRR_traced_expanded:
  assumes "\<exists>v\<in>set cf. 0 < v" and "\<exists>v\<in>set cf. v < 0"
  shows "\<exists>k rates. k \<le> 20 \<and>
           (\<forall>r\<in>set rates. spec_low \<le> r \<and> r \<le> 2 ^ 20) \<and>
           (if npvSum spec_low cf * npvSum (2 ^ k) cf > 0
            then spec_upper cf = None \<and> IRR_traced cf M tol = Inr (None, rates)
            else spec_upper cf = Some (2 ^ k) \<and>
                 IRR_traced cf M tol
                   = bisect cf M tol 0 spec_low (2 ^ k) (npvSum spec_low cf) (npvSum (2 ^ k) cf) rates)"
proof -
  let ?fLow = "npvSum spec_low cf"
  have len: "\<not> length cf < 2" by (rule pos_neg_length [OF assms])
  have ex: "list_ex (\<lambda>v. 0 < v) cf" "list_ex (\<lambda>v. v < 0) cf"
    using assms by (simp_all add: list_ex_iff)
  have "\<exists>k rates'. expandBracket cf ?fLow (2 ^ 0) (npvSum 1 cf) 0 [spec_low, 1]
                      = Inr (2 ^ k, npvSum (2 ^ k) cf, rates') \<and>
           0 \<le> k \<and> k \<le> 20 \<and>
           (\<forall>j. 0 \<le> j \<and> j < k \<longrightarrow> ?fLow * npvSum (2 ^ j) cf > 0) \<and>
           (k < 20 \<longrightarrow> \<not> ?fLow * npvSum (2 ^ k) cf > 0) \<and>
           (\<forall>r\<in>set rates'. r \<in> set [spec_low, 1] \<or> (\<exists>j\<le>20. r = 2 ^ j))"
    by (rule expandBracket_spec) simp_all
  then obtain k rates where k:
    "expandBracket cf ?fLow 1 (npvSum 1 cf) 0 [spec_low, 1] = Inr (2 ^ k, npvSum (2 ^ k) cf, rates)"
    "k \<le> 20"
    "\<forall>j. j < k \<longrightarrow> ?fLow * npvSum (2 ^ j) cf > 0"
    "k < 20 \<longrightarrow> \<not> ?fLow * npvSum (2 ^ k) cf > 0"
    "\<forall>r\<in>set rates. r \<in> set [spec_low, 1] \<or> (\<exists>j\<le>20. r = 2 ^ j)"
    by auto
  have bounds: "\<forall>r\<in>set rates. spec_low \<le> r \<and> r \<le> 2 ^ 20"
  proof
    fix r assume "r \<in> set rates"
    with k(5) consider "r = spec_low" | "r = 1" | j where "j \<le> 20" "r = 2 ^ j" by auto
    then show "spec_low \<le> r \<and> r \<le> 2 ^ 20"
    proof cases
      case 1
      then show ?thesis by (simp add: spec_low_def)
    next
      case 2
      then show ?thesis by (simp add: spec_low_def)
    next
      case 3
      have "(2::real) ^ j \<le> 2 ^ 20" using 3(1) by (intro power_increasing) simp_all
      with 3(2) spec_low_lt_pow [of j] show ?thesis by simp
    qed
  qed
  have run: "IRR_traced cf M tol =
      (if ?fLow * npvSum (2 ^ k) cf > 0 then Inr (None, rates)
       else bisect cf M tol 0 spec_low (2 ^ k) ?fLow (npvSum (2 ^ k) cf) rates)"
    using len ex k(1) spec_low_gt
    by (simp add: IRR_traced_def Let_def NPV_npvSum spec_low_def [symmetric])
  show ?thesis
  proof (cases "?fLow * npvSum (2 ^ k) cf > 0")
    case True
    with k(4) k(2) have k20: "k = 20" by simp
    have "\<forall>j<21. \<not> \<not> ?fLow * npvSum (2 ^ j) cf > 0"
    proof (intro allI impI)
      fix j :: nat assume "j < 21"
      then have "j < k \<or> j = k" using k20 by auto
      with k(3) True show "\<not> \<not> ?fLow * npvSum (2 ^ j) cf > 0" by auto
    qed
    then have "List.find (\<lambda>j. \<not> ?fLow * npvSum (2 ^ j) cf > 0) [0..<21] = None"
      by (rule find_upt_none)
    then have "spec_upper cf = None" by (simp add: spec_upper_def)
    with True run k(2) bounds show ?thesis
      by (intro exI [of _ k] exI [of _ rates]) simp
  next
    case False
    have "List.find (\<lambda>j. \<not> ?fLow * npvSum (2 ^ j) cf > 0) [0..<21] = Some k"
      using k(2) False k(3) by (intro find_upt_first) auto
    then have "spec_upper cf = Some (2 ^ k)" by (simp add: spec_upper_def)
    with False run k(2) bounds show ?thesis
      by (intro exI [of _ k] exI [of _ rates]) simp
  qed
qed

lemma IRR_traced_no_sign:
  assumes "\<not> ((\<exists>v\<in>set cf. 0 < v) \<and> (\<exists>v\<in>set cf. v < 0))"
  shows "IRR_traced cf M tol = Inr (None, [])"
  using assms by (auto simp add: IRR_traced_def Let_def list_ex_iff)


lemma IRR_traced_bounds:
  "\<exists>res rates. IRR_traced cf M tol = Inr (res, rates) \<and>
     (\<forall>r\<in>set rates. spec_low \<le> r \<and> r \<le> 2 ^ 20) \<and>
     (\<forall>x. res = Some x \<longrightarrow> spec_low < x \<and> x < 2 ^ 20)"
proof (cases "(\<exists>v\<in>set cf. 0 < v) \<and> (\<exists>v\<in>set cf. v < 0)")
  case False
  then show ?thesis by (simp add: IRR_traced_no_sign)
next
  case True
  then have a: "\<exists>v\<in>set cf. 0 < v" and b: "\<exists>v\<in>set cf. v < 0" by blast+
  from IRR_traced_expanded [OF a b, of M tol]
  obtain k rates where k: "k \<le> 20" "\<forall>r\<in>set rates. spec_low \<le> r \<and> r \<le> 2 ^ 20"
    "if npvSum spec_low cf * npvSum (2 ^ k) cf > 0
     then spec_upper cf = None \<and> IRR_traced cf M tol = Inr (None, rates)
     else spec_upper cf = Some (2 ^ k) \<and>
          IRR_traced cf M tol
            = bisect cf M tol 0 spec_low (2 ^ k) (npvSum spec_low cf) (npvSum (2 ^ k) cf) rates"
    by blast
  have pk: "(2::real) ^ k \<le> 2 ^ 20" using k(1) by (intro power_increasing) simp_all
  show ?thesis
  proof (cases "npvSum spec_low cf * npvSum (2 ^ k) cf > 0")
    case pos: True
    with k(2,3) show ?thesis by simp
  next
    case npos: False
    with k(3) have run: "IRR_traced cf M tol
            = bisect cf M tol 0 spec_low (2 ^ k) (npvSum spec_low cf) (npvSum (2 ^ k) cf) rates"
      by simp
    from bisect_bounds [OF spec_low_gt spec_low_lt_pow, of cf M tol 0 k "npvSum spec_low cf" "npvSum (2 ^ k) cf" rates]
    obtain x rates' where x:
      "bisect cf M tol 0 spec_low (2 ^ k) (npvSum spec_low cf) (npvSum (2 ^ k) cf) rates = Inr (Some x, rates')"
      "spec_low < x" "x < 2 ^ k"
      "\<forall>r\<in>set rates'. r \<in> set rates \<or> (spec_low < r \<and> r < 2 ^ k)"
      by blast
    have "\<forall>r\<in>set rates'. spec_low \<le> r \<and> r \<le> 2 ^ 20"
    proof
      fix r assume "r \<in> set rates'"
      with x(4) have "r \<in> set rates \<or> (spec_low < r \<and> r < 2 ^ k)" by blast
      with k(2) pk show "spec_low \<le> r \<and> r \<le> 2 ^ 20" by fastforce
    qed
    moreover have "x < 2 ^ 20" using x(3) pk by simp
    ultimately show ?thesis using run x(1,2) by simp
  qed
qed




lemma IRR_example_two_steps:
  "IRR_traced [- 100, 60, 60] 2 (1 / 10 ^ 7)
     = Inr (Some (20003 / 80000), [- (9999 / 10000), 1, 1 / 20000, 20001 / 40000])"
  by (simp add: IRR_traced_def NPV_three Let_def expandBracket.simps bisect.simps)




text \<open>
  C10. \<^const>\<open>IRR\<close> always returns and never raises the discount-rate error of \<^const>\<open>NPV\<close>:
  whatever the cash flows (and the iteration budget and tolerance), every rate at which
  NPV is evaluated lies in \<open>[-0.9999, 2^20]\<close>, NPV returns a value there, and a result that
  is not null lies in the same interval.
\<close>

theorem IRR_total_rates_bracketed:
  "(\<exists>res rates. IRR_traced flows maxIterations tolerance = Inr (res, rates) \<and>
      IRR_with flows maxIterations tolerance = Inr res \<and>
      (\<forall>r\<in>set rates. - (9999 / 10000) \<le> r \<and> r \<le> 2 ^ 20 \<and> - 1 < r \<and>
                       (\<exists>v. NPV r flows = Inr v)) \<and>
      (\<forall>x. res = Some x \<longrightarrow> - (9999 / 10000) \<le> x \<and> x \<le> 2 ^ 20)) \<and>
   (\<exists>res. IRR flows = Inr res \<and>
      (\<forall>x. res = Some x \<longrightarrow> - (9999 / 10000) \<le> x \<and> x \<le> 2 ^ 20))"
proof -
  have gen: "\<exists>res rates. IRR_traced flows M tol = Inr (res, rates) \<and>
      IRR_with flows M tol = Inr res \<and>
      (\<forall>r\<in>set rates. - (9999 / 10000) \<le> r \<and> r \<le> 2 ^ 20 \<and> - 1 < r \<and>
                       (\<exists>v. NPV r flows = Inr v)) \<and>
      (\<forall>x. res = Some x \<longrightarrow> - (9999 / 10000) \<le> x \<and> x \<le> 2 ^ 20)" for M tol
  proof -
    from IRR_traced_bounds [of flows M tol]
    obtain res rates where b: "IRR_traced flows M tol = Inr (res, rates)"
      "\<forall>r\<in>set rates. spec_low \<le> r \<and> r \<le> 2 ^ 20"
      "\<forall>x. res = Some x \<longrightarrow> spec_low < x \<and> x < 2 ^ 20"
      by blast
    have w: "IRR_with flows M tol = Inr res" using b(1) by (simp add: IRR_with_def)
    have r: "\<forall>r\<in>set rates. - (9999 / 10000) \<le> r \<and> r \<le> 2 ^ 20 \<and> - 1 < r \<and>
                       (\<exists>v. NPV r flows = Inr v)"
    proof
      fix r assume "r \<in> set rates"
      with b(2) have rb: "spec_low \<le> r" "r \<le> 2 ^ 20" by auto
      then have "- 1 < r" using spec_low_gt by linarith
      with rb NPV_npvSum [of r flows]
      show "- (9999 / 10000) \<le> r \<and> r \<le> 2 ^ 20 \<and> - 1 < r \<and> (\<exists>v. NPV r flows = Inr v)"
        by (simp add: spec_low_def)
    qed
    have x: "\<forall>x. res = Some x \<longrightarrow> - (9999 / 10000) \<le> x \<and> x \<le> 2 ^ 20"
      using b(3) by (auto simp add: spec_low_def)
    from b(1) w r x show ?thesis by blast
  qed
  from gen [of 200 "1 / 10 ^ 7"]
  have "\<exists>res. IRR flows = Inr res \<and>
      (\<forall>x. res = Some x \<longrightarrow> - (9999 / 10000) \<le> x \<and> x \<le> 2 ^ 20)"
    unfolding IRR_def by blast
  with gen [of maxIterations tolerance] show ?thesis by blast
qed

theorem IRR_total_rates_bracketed_witness:
  "\<exists>x. IRR_traced [- 100, 60, 60] 2 (1 / 10 ^ 7)
          = Inr (Some x, [- (9999 / 10000), 1, 1 / 20000, 20001 / 40000]) \<and>
        - (9999 / 10000) \<le> x \<and> x \<le> 2 ^ 20 \<and>
        (\<exists>v. NPV (20001 / 40000) [- 100, 60, 60] = Inr v)"
proof -
  from IRR_total_rates_bracketed [of "[- 100, 60, 60]" 2 "1 / 10 ^ 7"]
  obtain res rates where b: "IRR_traced [- 100, 60, 60] 2 (1 / 10 ^ 7) = Inr (res, rates)"
    "\<forall>r\<in>set rates. - (9999 / 10000) \<le> r \<and> r \<le> 2 ^ 20 \<and> - 1 < r \<and>
                       (\<exists>v. NPV r [- 100, 60, 60] = Inr v)"
    "\<forall>x. res = Some x \<longrightarrow> - (9999 / 10000) \<le> x \<and> x \<le> 2 ^ 20"
    by blast
  from b(1) have "Inr (Some (20003 / 80000), [- (9999 / 10000), 1, 1 / 20000, 20001 / 40000])
                    = (Inr (res, rates) :: error + real option \<times> real list)"
    by (simp only: IRR_example_two_steps)
  then have res: "res = Some (20003 / 80000)"
    and rates: "rates = [- (9999 / 10000), 1, 1 / 20000, 20001 / 40000]"
    by simp_all
  from b(2) rates have "\<exists>v. NPV (20001 / 40000) [- 100, 60, 60] = Inr v" by simp
  with b(1,3) res rates show ?thesis by blast
qed


section \<open>Properties of the investment evaluation\<close>







lemma setInsertAll_set: "set (setInsertAll acc xs) = set acc \<union> set xs"
  by (induction xs arbitrary: acc) auto


lemma uniqueValues_set: "set (uniqueValues xs) = set xs"
  by (simp add: uniqueValues_def setInsertAll_set)










section \<open>Properties of the sensitivity grid\<close>

text \<open>Rounding to six digits is monotone and leaves a rounded value unchanged.\<close>

lemma round6_of_int: "round6 (of_int n / 10 ^ 6) = of_int n / 10 ^ 6"
proof (cases "n < 0")
  case True
  have "\<lfloor>(of_int (- n) :: real) + 1 / 2\<rfloor> = - n" by linarith
  then have "\<lfloor>- (of_int n / 10 ^ 6) * 10 ^ 6 + 1 / (2::real)\<rfloor> = - n" by simp
  moreover have "(of_int n :: real) / 10 ^ 6 < 0" using True by simp
  ultimately show ?thesis by (simp only: round6_def if_True)
next
  case False
  have "\<lfloor>(of_int n :: real) + 1 / 2\<rfloor> = n" by linarith
  then have "\<lfloor>(of_int n / 10 ^ 6) * 10 ^ 6 + 1 / (2::real)\<rfloor> = n" by simp
  moreover have "\<not> (of_int n :: real) / 10 ^ 6 < 0" using False by simp
  ultimately show ?thesis by (simp only: round6_def if_False)
qed

lemma round6_is_of_int: "\<exists>n. round6 v = of_int n / 10 ^ 6"
proof (cases "v < 0")
  case True
  have "round6 v = of_int (- \<lfloor>- v * 10 ^ 6 + 1 / 2\<rfloor>) / 10 ^ 6"
    using True by (simp add: round6_def)
  then show ?thesis by blast
next
  case False
  then have "round6 v = of_int \<lfloor>v * 10 ^ 6 + 1 / 2\<rfloor> / 10 ^ 6"
    by (simp add: round6_def)
  then show ?thesis by blast
qed

lemma round6_idem: "round6 (round6 v) = round6 v"
proof -
  obtain n where "round6 v = of_int n / 10 ^ 6" using round6_is_of_int by blast
  then show ?thesis by (simp only: round6_of_int)
qed

lemma round6_mono:
  assumes "x \<le> y"
  shows "round6 x \<le> round6 y"
proof -
  have nn: "0 \<le> \<lfloor>z * 10 ^ 6 + 1 / 2\<rfloor>" if "0 \<le> z" for z :: real
  proof -
    have "0 \<le> z * 10 ^ 6 + 1 / 2" using that by simp
    then show ?thesis by simp
  qed
  consider "y < 0" | "x < 0" "0 \<le> y" | "0 \<le> x" using assms by linarith
  then show ?thesis
  proof cases
    case 1
    then have x: "x < 0" using assms by simp
    have "- y * 10 ^ 6 + 1 / 2 \<le> - x * 10 ^ 6 + 1 / 2" using assms by simp
    then have "\<lfloor>- y * 10 ^ 6 + 1 / 2\<rfloor> \<le> \<lfloor>- x * 10 ^ 6 + 1 / 2\<rfloor>" by (rule floor_mono)
    then have "(of_int \<lfloor>- y * 10 ^ 6 + 1 / 2\<rfloor> :: real) / 10 ^ 6
                 \<le> of_int \<lfloor>- x * 10 ^ 6 + 1 / 2\<rfloor> / 10 ^ 6"
      by (simp add: divide_right_mono)
    then show ?thesis using 1 x by (simp add: round6_def)
  next
    case 2
    have "0 \<le> \<lfloor>- x * 10 ^ 6 + 1 / 2\<rfloor>" using nn [of "- x"] 2(1) by simp
    then have a: "round6 x \<le> 0" using 2(1) by (simp add: round6_def)
    have "0 \<le> \<lfloor>y * 10 ^ 6 + 1 / 2\<rfloor>" using nn [of y] 2(2) by simp
    then have "0 \<le> round6 y" using 2(2) by (simp add: round6_def)
    with a show ?thesis by linarith
  next
    case 3
    then have y: "0 \<le> y" using assms by simp
    have "x * 10 ^ 6 + 1 / 2 \<le> y * 10 ^ 6 + 1 / 2" using assms by simp
    then have "\<lfloor>x * 10 ^ 6 + 1 / 2\<rfloor> \<le> \<lfloor>y * 10 ^ 6 + 1 / 2\<rfloor>" by (rule floor_mono)
    then have "(of_int \<lfloor>x * 10 ^ 6 + 1 / 2\<rfloor> :: real) / 10 ^ 6
                 \<le> of_int \<lfloor>y * 10 ^ 6 + 1 / 2\<rfloor> / 10 ^ 6"
      by (simp add: divide_right_mono)
    then show ?thesis using 3 y by (simp add: round6_def)
  qed
qed



text \<open>
  What a computed point reports, in terms of the two simulation results, and its
  monotonicity in the reuse rate.
\<close>

lemma computeSensitivityPoint_Inr:
  assumes "computeSensitivityPoint inp ctx = Inr pc"
  shows "\<exists>b s.
    simulatePanelFlow (toCoreUnitOfWork (contextUnitOfWork ctx) (haulDistancePerTripKm inp))
      (toCoreCostDrivers (contextCostDrivers ctx) (pointGrinderThroughputKgPerHour inp))
      (toCoreSustainabilityDrivers (contextSustainabilityDrivers ctx))
      \<lparr> useCrusher = True, truckSpeedKmPerHour = Some DEFAULT_TRUCK_SPEED_KM_PER_HOUR,
        loadUnloadHoursPerTrip = Some DEFAULT_LOAD_UNLOAD_HOURS_PER_TRIP \<rparr> = Inr b \<and>
    simulatePanelFlow (toCoreUnitOfWork (contextUnitOfWork ctx) (haulDistancePerTripKm inp))
      (toCoreCostDrivers (contextCostDrivers ctx) (pointGrinderThroughputKgPerHour inp))
      (toCoreSustainabilityDrivers (contextSustainabilityDrivers ctx))
      \<lparr> useCrusher = False, truckSpeedKmPerHour = Some DEFAULT_TRUCK_SPEED_KM_PER_HOUR,
        loadUnloadHoursPerTrip = Some DEFAULT_LOAD_UNLOAD_HOURS_PER_TRIP \<rparr> = Inr s \<and>
    haulDistancePerTripKm (point pc) = round6 (haulDistancePerTripKm inp) \<and>
    reuseUptakeRate (point pc) = round6 (reuseUptakeRate inp) \<and>
    grinderUtilization (point pc)
      = (case grinderUtilization inp of None \<Rightarrow> None | Some g \<Rightarrow> Some (round6 g)) \<and>
    pointGrinderThroughputKgPerHour (point pc) = round6 (pointGrinderThroughputKgPerHour inp) \<and>
    scenarioVirginAggregateEmissionsTonsCO2e (diagnostics pc)
      = round6 (max 0 (inboundMaterial (contextUnitOfWork ctx)
                       - max 0 (inboundMaterial (contextUnitOfWork ctx) - materialRecovered s)
                         * reuseUptakeRate inp)
                * virginAggregateEmissionsPerKg (contextAssumptions ctx)) \<and>
    emissionsAvoidedTonsCO2e (point pc)
      = round6 (totalEmissions b
                + of_int \<lceil>max 0 (inboundMaterial (contextUnitOfWork ctx) - materialRecovered b)
                           / truckCapacity (contextCostDrivers ctx)\<rceil>
                  * haulDistancePerTripKm inp * haulEmissionsPerKm (contextSustainabilityDrivers ctx)
                + inboundMaterial (contextUnitOfWork ctx)
                  * virginAggregateEmissionsPerKg (contextAssumptions ctx)
                - (totalEmissions s
                   + of_int \<lceil>max 0 (max 0 (inboundMaterial (contextUnitOfWork ctx) - materialRecovered s)
                                     - max 0 (inboundMaterial (contextUnitOfWork ctx) - materialRecovered s)
                                       * reuseUptakeRate inp)
                              / truckCapacity (contextCostDrivers ctx)\<rceil>
                     * haulDistancePerTripKm inp
                     * haulEmissionsPerKm (contextSustainabilityDrivers ctx)
                   + max 0 (inboundMaterial (contextUnitOfWork ctx)
                            - max 0 (inboundMaterial (contextUnitOfWork ctx) - materialRecovered s)
                              * reuseUptakeRate inp)
                     * virginAggregateEmissionsPerKg (contextAssumptions ctx)
                   + emissionsPenaltyTonsCO2e
                       (computeExpeditePenaltyProxy (haulDistancePerTripKm inp)
                          (contextPenaltyProxy ctx))))"
proof -
  let ?sim = "\<lambda>crusher. simulatePanelFlow
      (toCoreUnitOfWork (contextUnitOfWork ctx) (haulDistancePerTripKm inp))
      (toCoreCostDrivers (contextCostDrivers ctx) (pointGrinderThroughputKgPerHour inp))
      (toCoreSustainabilityDrivers (contextSustainabilityDrivers ctx))
      \<lparr> useCrusher = crusher, truckSpeedKmPerHour = Some DEFAULT_TRUCK_SPEED_KM_PER_HOUR,
        loadUnloadHoursPerTrip = Some DEFAULT_LOAD_UNLOAD_HOURS_PER_TRIP \<rparr>"
  obtain b where b: "?sim True = Inr b"
  proof (cases "?sim True")
    case (Inl e)
    have "computeSensitivityPoint inp ctx = Inl e"
      by (simp only: computeSensitivityPoint_def Let_def Inl sum.case)
    with assms show ?thesis by simp
  next
    case (Inr b)
    with that show ?thesis by blast
  qed
  obtain s where s: "?sim False = Inr s"
  proof (cases "?sim False")
    case (Inl e)
    have "computeSensitivityPoint inp ctx = Inl e"
      by (simp only: computeSensitivityPoint_def Let_def b Inl sum.case)
    with assms show ?thesis by simp
  next
    case (Inr s)
    with that show ?thesis by blast
  qed
  have "pc = projr (computeSensitivityPoint inp ctx)" using assms by simp
  then have pc: "point pc = point (projr (computeSensitivityPoint inp ctx))"
    "diagnostics pc = diagnostics (projr (computeSensitivityPoint inp ctx))"
    by simp_all
  show ?thesis
    by (intro exI [of _ b] exI [of _ s] conjI b s)
      (simp_all only: pc computeSensitivityPoint_def Let_def b s sum.case sum.sel
         SensitivityPointComputation.simps SensitivityPlotPoint.simps
         SensitivityPointInput.simps SensitivityPointDiagnostics.simps)
qed


lemma computeSensitivityPoint_monotone:
  assumes c1: "computeSensitivityPoint i1 ctx = Inr p1"
    and c2: "computeSensitivityPoint i2 ctx = Inr p2"
    and haul: "haulDistancePerTripKm i1 = haulDistancePerTripKm i2"
    and thr: "pointGrinderThroughputKgPerHour i1 = pointGrinderThroughputKgPerHour i2"
    and reuse: "reuseUptakeRate i1 \<le> reuseUptakeRate i2"
    and hef: "0 \<le> haulEmissionsPerKm (contextSustainabilityDrivers ctx)"
    and vef: "0 \<le> virginAggregateEmissionsPerKg (contextAssumptions ctx)"
  shows "scenarioVirginAggregateEmissionsTonsCO2e (diagnostics p2)
           \<le> scenarioVirginAggregateEmissionsTonsCO2e (diagnostics p1) \<and>
         emissionsAvoidedTonsCO2e (point p1) \<le> emissionsAvoidedTonsCO2e (point p2)"
proof -
  let ?inb = "inboundMaterial (contextUnitOfWork ctx)"
  let ?cap = "truckCapacity (contextCostDrivers ctx)"
  let ?h = "haulDistancePerTripKm i1"
  let ?hef = "haulEmissionsPerKm (contextSustainabilityDrivers ctx)"
  let ?vef = "virginAggregateEmissionsPerKg (contextAssumptions ctx)"
  let ?pen = "emissionsPenaltyTonsCO2e (computeExpeditePenaltyProxy ?h (contextPenaltyProxy ctx))"
  let ?sim = "\<lambda>crusher. simulatePanelFlow
      (toCoreUnitOfWork (contextUnitOfWork ctx) ?h)
      (toCoreCostDrivers (contextCostDrivers ctx) (pointGrinderThroughputKgPerHour i1))
      (toCoreSustainabilityDrivers (contextSustainabilityDrivers ctx))
      \<lparr> useCrusher = crusher, truckSpeedKmPerHour = Some DEFAULT_TRUCK_SPEED_KM_PER_HOUR,
        loadUnloadHoursPerTrip = Some DEFAULT_LOAD_UNLOAD_HOURS_PER_TRIP \<rparr>"
  from computeSensitivityPoint_Inr [OF c1]
  obtain b s where b: "?sim True = Inr b" and s: "?sim False = Inr s"
    and v1: "scenarioVirginAggregateEmissionsTonsCO2e (diagnostics p1)
      = round6 (max 0 (?inb - max 0 (?inb - materialRecovered s) * reuseUptakeRate i1) * ?vef)"
    and a1: "emissionsAvoidedTonsCO2e (point p1)
      = round6 (totalEmissions b
                + of_int \<lceil>max 0 (?inb - materialRecovered b) / ?cap\<rceil> * ?h * ?hef
                + ?inb * ?vef
                - (totalEmissions s
                   + of_int \<lceil>max 0 (max 0 (?inb - materialRecovered s)
                                     - max 0 (?inb - materialRecovered s) * reuseUptakeRate i1)
                              / ?cap\<rceil> * ?h * ?hef
                   + max 0 (?inb - max 0 (?inb - materialRecovered s) * reuseUptakeRate i1) * ?vef
                   + ?pen))"
    by blast
  from computeSensitivityPoint_Inr [OF c2]
  obtain b' s' where b': "?sim True = Inr b'" and s': "?sim False = Inr s'"
    and v2': "scenarioVirginAggregateEmissionsTonsCO2e (diagnostics p2)
      = round6 (max 0 (?inb - max 0 (?inb - materialRecovered s') * reuseUptakeRate i2) * ?vef)"
    and a2': "emissionsAvoidedTonsCO2e (point p2)
      = round6 (totalEmissions b'
                + of_int \<lceil>max 0 (?inb - materialRecovered b') / ?cap\<rceil> * ?h * ?hef
                + ?inb * ?vef
                - (totalEmissions s'
                   + of_int \<lceil>max 0 (max 0 (?inb - materialRecovered s')
                                     - max 0 (?inb - materialRecovered s') * reuseUptakeRate i2)
                              / ?cap\<rceil> * ?h * ?hef
                   + max 0 (?inb - max 0 (?inb - materialRecovered s') * reuseUptakeRate i2) * ?vef
                   + ?pen))"
    unfolding haul [symmetric] thr [symmetric] by blast
  have same: "b' = b" "s' = s" using b b' s s' by simp_all
  note v2 = v2' [unfolded same] and a2 = a2' [unfolded same]
  have checks: "simulationChecksPass (toCoreUnitOfWork (contextUnitOfWork ctx) ?h)
      (toCoreCostDrivers (contextCostDrivers ctx) (pointGrinderThroughputKgPerHour i1))
      (toCoreSustainabilityDrivers (contextSustainabilityDrivers ctx))
      \<lparr> useCrusher = True, truckSpeedKmPerHour = Some DEFAULT_TRUCK_SPEED_KM_PER_HOUR,
        loadUnloadHoursPerTrip = Some DEFAULT_LOAD_UNLOAD_HOURS_PER_TRIP \<rparr>"
    by (rule simulatePanelFlow_Inr_checks [OF b])
  have cap: "0 < ?cap" and h: "0 < ?h"
    using checks
    by (simp_all add: simulationChecksPass_def toCoreCostDrivers_def toCoreUnitOfWork_def)
  define R where "R = max 0 (?inb - materialRecovered s)"
  have R: "0 \<le> R" by (simp add: R_def)
  have rr: "R * reuseUptakeRate i1 \<le> R * reuseUptakeRate i2"
    using reuse R by (rule mult_left_mono)
  have virgin: "max 0 (?inb - R * reuseUptakeRate i2) * ?vef
                  \<le> max 0 (?inb - R * reuseUptakeRate i1) * ?vef"
    using rr vef by (intro mult_right_mono) auto
  have landfill: "max 0 (R - R * reuseUptakeRate i2) \<le> max 0 (R - R * reuseUptakeRate i1)"
    using rr by auto
  have "max 0 (R - R * reuseUptakeRate i2) / ?cap \<le> max 0 (R - R * reuseUptakeRate i1) / ?cap"
    using landfill cap by (intro divide_right_mono) simp_all
  then have "\<lceil>max 0 (R - R * reuseUptakeRate i2) / ?cap\<rceil>
               \<le> \<lceil>max 0 (R - R * reuseUptakeRate i1) / ?cap\<rceil>"
    by (rule ceiling_mono)
  then have "(of_int \<lceil>max 0 (R - R * reuseUptakeRate i2) / ?cap\<rceil> :: real)
               \<le> of_int \<lceil>max 0 (R - R * reuseUptakeRate i1) / ?cap\<rceil>"
    by simp
  then have "of_int \<lceil>max 0 (R - R * reuseUptakeRate i2) / ?cap\<rceil> * ?h
               \<le> of_int \<lceil>max 0 (R - R * reuseUptakeRate i1) / ?cap\<rceil> * ?h"
    using h by (intro mult_right_mono) simp_all
  then have disposal: "of_int \<lceil>max 0 (R - R * reuseUptakeRate i2) / ?cap\<rceil> * ?h * ?hef
               \<le> of_int \<lceil>max 0 (R - R * reuseUptakeRate i1) / ?cap\<rceil> * ?h * ?hef"
    by (rule mult_right_mono) (rule hef)
  have "scenarioVirginAggregateEmissionsTonsCO2e (diagnostics p2)
           \<le> scenarioVirginAggregateEmissionsTonsCO2e (diagnostics p1)"
    unfolding v1 v2 R_def [symmetric] using virgin by (rule round6_mono)
  moreover have "emissionsAvoidedTonsCO2e (point p1) \<le> emissionsAvoidedTonsCO2e (point p2)"
    unfolding a1 a2 R_def [symmetric] using virgin disposal by (intro round6_mono) linarith
  ultimately show ?thesis by blast
qed


text \<open>The loop over the grid inputs, and the inputs of the grid.\<close>

lemma computePoints_Inr:
  assumes "computePoints inps ctx = (n, Inr ps)"
  shows "n = length inps \<and>
         list_all2 (\<lambda>inp pc. computeSensitivityPoint inp ctx = Inr pc) inps ps"
  using assms
proof (induction inps arbitrary: n ps)
  case Nil
  then show ?case by simp
next
  case (Cons inp rest)
  from Cons.prems obtain p where p: "computeSensitivityPoint inp ctx = Inr p"
    by (cases "computeSensitivityPoint inp ctx") simp_all
  obtain m res where r: "computePoints rest ctx = (m, res)" by (cases "computePoints rest ctx")
  from Cons.prems p r obtain qs where qs: "res = Inr qs" "n = Suc m" "ps = p # qs"
    by (cases res) simp_all
  from Cons.IH [of m qs] r qs(1)
  have "m = length rest \<and> list_all2 (\<lambda>inp pc. computeSensitivityPoint inp ctx = Inr pc) rest qs"
    by simp
  with p qs show ?case by simp
qed





lemma set_gridInputs:
  assumes "inp \<in> set (gridInputs mode nominal hs rs as)"
  shows "\<exists>h\<in>set hs. \<exists>r\<in>set rs. \<exists>a\<in>set as.
           inp = \<lparr> haulDistancePerTripKm = h, reuseUptakeRate = r,
                   grinderUtilization = (if mode = Utilization then Some a else None),
                   pointGrinderThroughputKgPerHour =
                     (if mode = Utilization then nominal * a else a) \<rparr>"
proof -
  from assms obtain h r a where "h \<in> set hs" "r \<in> set rs" "a \<in> set as"
    "inp = \<lparr> haulDistancePerTripKm = h, reuseUptakeRate = r,
                   grinderUtilization = (if mode = Utilization then Some a else None),
                   pointGrinderThroughputKgPerHour =
                     (if mode = Utilization then nominal * a else a) \<rparr>"
    unfolding gridInputs_def by auto
  then show ?thesis by blast
qed

lemma expandRangeValues_rounded:
  assumes "v \<in> set (expandRangeValues rg)"
  shows "round6 v = v"
proof -
  have "\<exists>w. v = round6 w"
    using assms
    by (auto simp add: expandRangeValues_def Let_def uniqueValues_set split: if_splits)
  then show ?thesis using round6_idem by auto
qed


text \<open>The grid construction, once the range of the grinder axis is known.\<close>

lemma buildSensitivityGrid_Some:
  assumes "(case grinderUtilizationRange (ranges payload) of
              None \<Rightarrow> grinderThroughputKgPerHourRange (ranges payload)
            | Some r \<Rightarrow> Some r) = Some rg"
  shows "buildSensitivityGrid payload =
     (if length (expandRangeValues (haulDistancePerTripRange (ranges payload)))
           * length (expandRangeValues (reuseUptakeRateRange (ranges payload)))
           * length (expandRangeValues rg) > MAX_GRID_POINTS
      then (0, Inl (GridTooLarge
                 (length (expandRangeValues (haulDistancePerTripRange (ranges payload)))
                  * length (expandRangeValues (reuseUptakeRateRange (ranges payload)))
                  * length (expandRangeValues rg)) MAX_GRID_POINTS))
      else (case computePoints
                   (gridInputs
                      (if grinderUtilizationRange (ranges payload) \<noteq> None
                       then Utilization else Throughput)
                      (grinderThroughputKgPerHour (costDrivers payload))
                      (expandRangeValues (haulDistancePerTripRange (ranges payload)))
                      (expandRangeValues (reuseUptakeRateRange (ranges payload)))
                      (expandRangeValues rg))
                   (gridContext payload (resolveNormalizedInput payload)) of
              (n, Inl e) \<Rightarrow> (n, Inl e)
            | (n, Inr points') \<Rightarrow>
                (n, Inr \<lparr> axisMode = (if grinderUtilizationRange (ranges payload) \<noteq> None
                                       then Utilization else Throughput),
                          axes = \<lparr> axisHaulDistancePerTripKm =
                                     expandRangeValues (haulDistancePerTripRange (ranges payload)),
                                   axisReuseUptakeRate =
                                     expandRangeValues (reuseUptakeRateRange (ranges payload)),
                                   grinderAxisValues = expandRangeValues rg \<rparr>,
                          gridPoints = points',
                          penaltyProxy =
                            normalizedPenaltyProxy (resolveNormalizedInput payload) \<rparr>)))"
  by (simp only: buildSensitivityGrid_def Let_def assms option.case)

lemma buildSensitivityGrid_None:
  assumes "(case grinderUtilizationRange (ranges payload) of
              None \<Rightarrow> grinderThroughputKgPerHourRange (ranges payload)
            | Some r \<Rightarrow> Some r) = None"
  shows "buildSensitivityGrid payload
           = (0, Inl (Error ''TypeError: Cannot read properties of undefined''))"
  by (simp only: buildSensitivityGrid_def Let_def assms option.case)

lemma buildSensitivityGrid_Inr:
  assumes "snd (buildSensitivityGrid payload) = Inr g"
  shows "\<exists>rg. (case grinderUtilizationRange (ranges payload) of
                 None \<Rightarrow> grinderThroughputKgPerHourRange (ranges payload)
               | Some r \<Rightarrow> Some r) = Some rg \<and>
           axisMode g = (if grinderUtilizationRange (ranges payload) \<noteq> None
                         then Utilization else Throughput) \<and>
           list_all2 (\<lambda>inp pc. computeSensitivityPoint inp
                                  (gridContext payload (resolveNormalizedInput payload)) = Inr pc)
             (gridInputs
                (if grinderUtilizationRange (ranges payload) \<noteq> None then Utilization else Throughput)
                (grinderThroughputKgPerHour (costDrivers payload))
                (expandRangeValues (haulDistancePerTripRange (ranges payload)))
                (expandRangeValues (reuseUptakeRateRange (ranges payload)))
                (expandRangeValues rg))
             (gridPoints g)"
proof (cases "case grinderUtilizationRange (ranges payload) of
                 None \<Rightarrow> grinderThroughputKgPerHourRange (ranges payload)
               | Some r \<Rightarrow> Some r")
  case None
  from buildSensitivityGrid_None [OF None] assms show ?thesis by simp
next
  case (Some rg)
  let ?inps = "gridInputs
                (if grinderUtilizationRange (ranges payload) \<noteq> None then Utilization else Throughput)
                (grinderThroughputKgPerHour (costDrivers payload))
                (expandRangeValues (haulDistancePerTripRange (ranges payload)))
                (expandRangeValues (reuseUptakeRateRange (ranges payload)))
                (expandRangeValues rg)"
  let ?ctx = "gridContext payload (resolveNormalizedInput payload)"
  note unf = buildSensitivityGrid_Some [OF Some]
  have small: "\<not> length (expandRangeValues (haulDistancePerTripRange (ranges payload)))
           * length (expandRangeValues (reuseUptakeRateRange (ranges payload)))
           * length (expandRangeValues rg) > MAX_GRID_POINTS"
  proof
    assume "length (expandRangeValues (haulDistancePerTripRange (ranges payload)))
           * length (expandRangeValues (reuseUptakeRateRange (ranges payload)))
           * length (expandRangeValues rg) > MAX_GRID_POINTS"
    then have "snd (buildSensitivityGrid payload) = Inl (GridTooLarge
                 (length (expandRangeValues (haulDistancePerTripRange (ranges payload)))
                  * length (expandRangeValues (reuseUptakeRateRange (ranges payload)))
                  * length (expandRangeValues rg)) MAX_GRID_POINTS)"
      by (simp only: unf if_True snd_conv)
    with assms show False by simp
  qed
  obtain n res where r: "computePoints ?inps ?ctx = (n, res)" by (cases "computePoints ?inps ?ctx")
  show ?thesis
  proof (cases res)
    case (Inl e)
    have "snd (buildSensitivityGrid payload) = Inl e"
      by (simp only: unf small if_False r Inl prod.case sum.case snd_conv)
    with assms show ?thesis by simp
  next
    case (Inr ps)
    have "snd (buildSensitivityGrid payload) = Inr \<lparr> axisMode = (if grinderUtilizationRange (ranges payload) \<noteq> None
                                       then Utilization else Throughput),
                          axes = \<lparr> axisHaulDistancePerTripKm =
                                     expandRangeValues (haulDistancePerTripRange (ranges payload)),
                                   axisReuseUptakeRate =
                                     expandRangeValues (reuseUptakeRateRange (ranges payload)),
                                   grinderAxisValues = expandRangeValues rg \<rparr>,
                          gridPoints = ps,
                          penaltyProxy =
                            normalizedPenaltyProxy (resolveNormalizedInput payload) \<rparr>"
      by (simp only: unf small if_False r Inr prod.case sum.case snd_conv)
    with assms have g: "gridPoints g = ps"
      "axisMode g = (if grinderUtilizationRange (ranges payload) \<noteq> None
                         then Utilization else Throughput)"
      by auto
    from computePoints_Inr [of ?inps ?ctx n ps] r Inr
    have "list_all2 (\<lambda>inp pc. computeSensitivityPoint inp ?ctx = Inr pc) ?inps ps" by simp
    with g Some show ?thesis by simp
  qed
qed


lemma list_all2_right_member:
  assumes "list_all2 P xs ys" and "y \<in> set ys"
  shows "\<exists>x\<in>set xs. P x y"
proof -
  from assms(2) obtain i where i: "i < length ys" "ys ! i = y" by (auto simp add: in_set_conv_nth)
  with assms(1) have "i < length xs" "P (xs ! i) y" by (auto simp add: list_all2_conv_all_nth)
  then show ?thesis by (intro bexI [of _ "xs ! i"]) simp_all
qed

lemma schema_emission_factors:
  assumes "sensitivityRequestSchema payload"
  shows "0 \<le> haulEmissionsPerKm
                (contextSustainabilityDrivers (gridContext payload (resolveNormalizedInput payload)))"
    and "0 \<le> virginAggregateEmissionsPerKg
                (contextAssumptions (gridContext payload (resolveNormalizedInput payload)))"
proof -
  show "0 \<le> haulEmissionsPerKm
                (contextSustainabilityDrivers (gridContext payload (resolveNormalizedInput payload)))"
    using assms
    by (simp add: sensitivityRequestSchema_def sustainabilityDriversSchema_def gridContext_def)
  have "sensitivityAssumptionsSchema (assumptions payload)"
    using assms by (simp add: sensitivityRequestSchema_def)
  then have "0 \<le> resolveAssumption
                    (optionalField (assumptions payload) req_virginAggregateEmissionsPerKg)
                    (virginAggregateEmissionsPerKg DEFAULT_SENSITIVITY_ASSUMPTIONS)"
    by (auto simp add: sensitivityAssumptionsSchema_def nonnegativeOptional_def
          resolveAssumption_def optionalField_def DEFAULT_SENSITIVITY_ASSUMPTIONS_def
          split: option.splits)
  then show "0 \<le> virginAggregateEmissionsPerKg
                (contextAssumptions (gridContext payload (resolveNormalizedInput payload)))"
    by (simp add: gridContext_def resolveNormalizedInput_def)
qed

text \<open>A point of the grid comes from an input of the grid, whose values it reports unchanged.\<close>

lemma gridPoint_input:
  assumes "snd (buildSensitivityGrid payload) = Inr g" and "pc \<in> set (gridPoints g)"
  shows "\<exists>inp. computeSensitivityPoint inp (gridContext payload (resolveNormalizedInput payload))
                  = Inr pc \<and>
           haulDistancePerTripKm (point pc) = haulDistancePerTripKm inp \<and>
           reuseUptakeRate (point pc) = reuseUptakeRate inp \<and>
           (\<exists>a. round6 a = a \<and>
                grinderUtilization inp = (if axisMode g = Utilization then Some a else None) \<and>
                pointGrinderThroughputKgPerHour inp
                  = (if axisMode g = Utilization
                     then grinderThroughputKgPerHour (costDrivers payload) * a else a))"
proof -
  let ?ctx = "gridContext payload (resolveNormalizedInput payload)"
  let ?mode = "if grinderUtilizationRange (ranges payload) \<noteq> None then Utilization else Throughput"
  from buildSensitivityGrid_Inr [OF assms(1)]
  obtain rg where rg: "axisMode g = ?mode"
    "list_all2 (\<lambda>inp pc. computeSensitivityPoint inp ?ctx = Inr pc)
       (gridInputs ?mode (grinderThroughputKgPerHour (costDrivers payload))
          (expandRangeValues (haulDistancePerTripRange (ranges payload)))
          (expandRangeValues (reuseUptakeRateRange (ranges payload)))
          (expandRangeValues rg))
       (gridPoints g)"
    by blast
  from list_all2_right_member [OF rg(2) assms(2)]
  obtain inp where inp: "inp \<in> set (gridInputs ?mode (grinderThroughputKgPerHour (costDrivers payload))
          (expandRangeValues (haulDistancePerTripRange (ranges payload)))
          (expandRangeValues (reuseUptakeRateRange (ranges payload)))
          (expandRangeValues rg))"
    and c: "computeSensitivityPoint inp ?ctx = Inr pc"
    by blast
  from set_gridInputs [OF inp]
  obtain h r a where hra:
    "h \<in> set (expandRangeValues (haulDistancePerTripRange (ranges payload)))"
    "r \<in> set (expandRangeValues (reuseUptakeRateRange (ranges payload)))"
    "a \<in> set (expandRangeValues rg)"
    "inp = \<lparr> haulDistancePerTripKm = h, reuseUptakeRate = r,
             grinderUtilization = (if ?mode = Utilization then Some a else None),
             pointGrinderThroughputKgPerHour =
               (if ?mode = Utilization
                then grinderThroughputKgPerHour (costDrivers payload) * a else a) \<rparr>"
    by blast
  from computeSensitivityPoint_Inr [OF c]
  have f: "haulDistancePerTripKm (point pc) = round6 (haulDistancePerTripKm inp)"
    "reuseUptakeRate (point pc) = round6 (reuseUptakeRate inp)"
    by blast+
  have "haulDistancePerTripKm (point pc) = haulDistancePerTripKm inp"
    using f(1) hra(1,4) expandRangeValues_rounded by simp
  moreover have "reuseUptakeRate (point pc) = reuseUptakeRate inp"
    using f(2) hra(2,4) expandRangeValues_rounded by simp
  moreover have "round6 a = a" using hra(3) by (rule expandRangeValues_rounded)
  moreover have "grinderUtilization inp = (if axisMode g = Utilization then Some a else None)"
    "pointGrinderThroughputKgPerHour inp
                  = (if axisMode g = Utilization
                     then grinderThroughputKgPerHour (costDrivers payload) * a else a)"
    unfolding rg(1) using hra(4) by simp_all
  ultimately show ?thesis using c by blast
qed


lemmas grid_eval_defs =
  buildSensitivityGrid_def expandRangeValues_def EPSILON_def
  round6_def uniqueValues_def upto.simps gridInputs_def gridContext_def
  resolveNormalizedInput_def resolveAssumption_def optionalField_def
  DEFAULT_SENSITIVITY_ASSUMPTIONS_def DEFAULT_EXPEDITE_PENALTY_PROXY_def MAX_GRID_POINTS_def
  computeSensitivityPoint_def simulatePanelFlow_def validatePositive_def validateRate_def
  toCoreUnitOfWork_def toCoreCostDrivers_def toCoreSustainabilityDrivers_def
  computeExpeditePenaltyProxy_def roundNullable_def
  DEFAULT_TRUCK_SPEED_KM_PER_HOUR_def DEFAULT_LOAD_UNLOAD_HOURS_PER_TRIP_def

lemmas schema_eval_defs =
  sensitivityRequestSchema_def unitOfWorkSchema_def costDriversSchema_def
  sustainabilityDriversSchema_def sensitivityRangesSchema_def numericRangeSchema_def
  positiveRangeSchema_def unitIntervalRangeSchema_def sensitivityAssumptionsSchema_def
  expeditePenaltyProxySchema_def nonnegativeOptional_def positiveOptional_def
  unitIntervalOptional_def

text \<open>The grid of the monotonicity test, evaluated.\<close>

lemma monotonicityTest_grid:
  "\<exists>ax ps pp.
     snd (buildSensitivityGrid monotonicityTestPayload)
       = Inr \<lparr> axisMode = Utilization, axes = ax, gridPoints = ps, penaltyProxy = pp \<rparr> \<and>
     map (\<lambda>pc. (haulDistancePerTripKm (point pc), reuseUptakeRate (point pc),
                grinderUtilization (point pc),
                scenarioVirginAggregateEmissionsTonsCO2e (diagnostics pc),
                emissionsAvoidedTonsCO2e (point pc))) ps
       = [(30, 0, Some 1, 1 / 20, - (23 / 100)),
          (30, 1 / 2, Some 1, 7 / 160, - (31 / 160)),
          (30, 1, Some 1, 3 / 80, - (63 / 400))]"
  by (simp add: grid_eval_defs monotonicityTestPayload_def Let_def)

text \<open>
  C4. For every request the schema accepts and every two points of the grid it yields
  that share the haul distance and the value of the grinder axis, the point with the
  greater reuse uptake rate reports scenario virgin-aggregate emissions that are not
  greater and avoided emissions that are not smaller; in exact arithmetic without any
  tolerance, and so within \<open>1e-9\<close>.
\<close>

theorem sensitivity_monotone_in_reuse:
  assumes "sensitivityRequestSchema payload"
    and "snd (buildSensitivityGrid payload) = Inr g"
    and "p1 \<in> set (gridPoints g)" and "p2 \<in> set (gridPoints g)"
    and "haulDistancePerTripKm (point p1) = haulDistancePerTripKm (point p2)"
    and "grinderAxisValueOf (axisMode g) (point p1) = grinderAxisValueOf (axisMode g) (point p2)"
    and "reuseUptakeRate (point p1) < reuseUptakeRate (point p2)"
  shows "scenarioVirginAggregateEmissionsTonsCO2e (diagnostics p2)
           \<le> scenarioVirginAggregateEmissionsTonsCO2e (diagnostics p1) \<and>
         emissionsAvoidedTonsCO2e (point p2) \<ge> emissionsAvoidedTonsCO2e (point p1) \<and>
         scenarioVirginAggregateEmissionsTonsCO2e (diagnostics p2)
           \<le> scenarioVirginAggregateEmissionsTonsCO2e (diagnostics p1) + 1 / 10 ^ 9 \<and>
         emissionsAvoidedTonsCO2e (point p2) \<ge> emissionsAvoidedTonsCO2e (point p1) - 1 / 10 ^ 9"
proof -
  let ?ctx = "gridContext payload (resolveNormalizedInput payload)"
  let ?nom = "grinderThroughputKgPerHour (costDrivers payload)"
  from gridPoint_input [OF assms(2,3)]
  obtain i1 a1 where i1: "computeSensitivityPoint i1 ?ctx = Inr p1"
    "haulDistancePerTripKm (point p1) = haulDistancePerTripKm i1"
    "reuseUptakeRate (point p1) = reuseUptakeRate i1"
    "round6 a1 = a1"
    "grinderUtilization i1 = (if axisMode g = Utilization then Some a1 else None)"
    "pointGrinderThroughputKgPerHour i1 = (if axisMode g = Utilization then ?nom * a1 else a1)"
    by blast
  from gridPoint_input [OF assms(2,4)]
  obtain i2 a2 where i2: "computeSensitivityPoint i2 ?ctx = Inr p2"
    "haulDistancePerTripKm (point p2) = haulDistancePerTripKm i2"
    "reuseUptakeRate (point p2) = reuseUptakeRate i2"
    "round6 a2 = a2"
    "grinderUtilization i2 = (if axisMode g = Utilization then Some a2 else None)"
    "pointGrinderThroughputKgPerHour i2 = (if axisMode g = Utilization then ?nom * a2 else a2)"
    by blast
  from computeSensitivityPoint_Inr [OF i1(1)]
  have q1: "grinderUtilization (point p1)
      = (case grinderUtilization i1 of None \<Rightarrow> None | Some g \<Rightarrow> Some (round6 g))"
    "pointGrinderThroughputKgPerHour (point p1) = round6 (pointGrinderThroughputKgPerHour i1)"
    by blast+
  from computeSensitivityPoint_Inr [OF i2(1)]
  have q2: "grinderUtilization (point p2)
      = (case grinderUtilization i2 of None \<Rightarrow> None | Some g \<Rightarrow> Some (round6 g))"
    "pointGrinderThroughputKgPerHour (point p2) = round6 (pointGrinderThroughputKgPerHour i2)"
    by blast+
  have axis: "a1 = a2"
  proof (cases "axisMode g")
    case Utilization
    have "grinderAxisValueOf (axisMode g) (point p1) = Some a1"
      using Utilization q1(1) i1(4,5) by (simp add: grinderAxisValueOf_def)
    moreover have "grinderAxisValueOf (axisMode g) (point p2) = Some a2"
      using Utilization q2(1) i2(4,5) by (simp add: grinderAxisValueOf_def)
    ultimately show ?thesis using assms(6) by simp
  next
    case Throughput
    have "grinderAxisValueOf (axisMode g) (point p1) = Some a1"
      using Throughput q1(2) i1(4,6) by (simp add: grinderAxisValueOf_def)
    moreover have "grinderAxisValueOf (axisMode g) (point p2) = Some a2"
      using Throughput q2(2) i2(4,6) by (simp add: grinderAxisValueOf_def)
    ultimately show ?thesis using assms(6) by simp
  qed
  have haul: "haulDistancePerTripKm i1 = haulDistancePerTripKm i2"
    using assms(5) i1(2) i2(2) by simp
  have thr: "pointGrinderThroughputKgPerHour i1 = pointGrinderThroughputKgPerHour i2"
    using axis i1(6) i2(6) by simp
  have reuse: "reuseUptakeRate i1 \<le> reuseUptakeRate i2"
    using assms(7) i1(3) i2(3) by simp
  from computeSensitivityPoint_monotone [OF i1(1) i2(1) haul thr reuse
      schema_emission_factors [OF assms(1)]]
  have m: "scenarioVirginAggregateEmissionsTonsCO2e (diagnostics p2)
           \<le> scenarioVirginAggregateEmissionsTonsCO2e (diagnostics p1)"
    "emissionsAvoidedTonsCO2e (point p1) \<le> emissionsAvoidedTonsCO2e (point p2)"
    by blast+
  then show ?thesis by simp
qed


theorem sensitivity_monotone_in_reuse_witness:
  "\<exists>g p1 p2. sensitivityRequestSchema monotonicityTestPayload \<and>
      snd (buildSensitivityGrid monotonicityTestPayload) = Inr g \<and>
      p1 \<in> set (gridPoints g) \<and> p2 \<in> set (gridPoints g) \<and>
      reuseUptakeRate (point p1) = 0 \<and> reuseUptakeRate (point p2) = 1 / 2 \<and>
      scenarioVirginAggregateEmissionsTonsCO2e (diagnostics p2)
        \<le> scenarioVirginAggregateEmissionsTonsCO2e (diagnostics p1) \<and>
      emissionsAvoidedTonsCO2e (point p1) \<le> emissionsAvoidedTonsCO2e (point p2)"
proof -
  define f where "f = (\<lambda>pc :: SensitivityPointComputation.
             (haulDistancePerTripKm (point pc), reuseUptakeRate (point pc),
              grinderUtilization (point pc),
              scenarioVirginAggregateEmissionsTonsCO2e (diagnostics pc),
              emissionsAvoidedTonsCO2e (point pc)))"
  note ex = monotonicityTest_grid [folded f_def]
  from ex obtain ax where "\<exists>ps pp.
    snd (buildSensitivityGrid monotonicityTestPayload)
       = Inr \<lparr> axisMode = Utilization, axes = ax, gridPoints = ps, penaltyProxy = pp \<rparr> \<and>
    map f ps = [(30, 0, Some 1, 1 / 20, - (23 / 100)),
          (30, 1 / 2, Some 1, 7 / 160, - (31 / 160)),
          (30, 1, Some 1, 3 / 80, - (63 / 400))]" ..
  then obtain ps where "\<exists>pp.
    snd (buildSensitivityGrid monotonicityTestPayload)
       = Inr \<lparr> axisMode = Utilization, axes = ax, gridPoints = ps, penaltyProxy = pp \<rparr> \<and>
    map f ps = [(30, 0, Some 1, 1 / 20, - (23 / 100)),
          (30, 1 / 2, Some 1, 7 / 160, - (31 / 160)),
          (30, 1, Some 1, 3 / 80, - (63 / 400))]" ..
  then obtain pp where ev0:
    "snd (buildSensitivityGrid monotonicityTestPayload)
       = Inr \<lparr> axisMode = Utilization, axes = ax, gridPoints = ps, penaltyProxy = pp \<rparr> \<and>
    map f ps = [(30, 0, Some 1, 1 / 20, - (23 / 100)),
          (30, 1 / 2, Some 1, 7 / 160, - (31 / 160)),
          (30, 1, Some 1, 3 / 80, - (63 / 400))]" ..
  note ev = conjunct1 [OF ev0] conjunct2 [OF ev0]
  define g where "g = \<lparr> axisMode = Utilization, axes = ax, gridPoints = ps, penaltyProxy = pp \<rparr>"
  have ok: "snd (buildSensitivityGrid monotonicityTestPayload) = Inr g"
    and mode: "axisMode g = Utilization"
    and m: "map f (gridPoints g) = [(30, 0, Some 1, 1 / 20, - (23 / 100)),
          (30, 1 / 2, Some 1, 7 / 160, - (31 / 160)),
          (30, 1, Some 1, 3 / 80, - (63 / 400))]"
    using ev by (simp_all add: g_def)
  from m have len: "length (gridPoints g) = 3"
    by (metis length_map length_Cons list.size(3) numeral_3_eq_3)
  define p1 where "p1 = gridPoints g ! 0"
  define p2 where "p2 = gridPoints g ! 1"
  have f1: "f p1 = (30, 0, Some 1, 1 / 20, - (23 / 100))"
    using m len unfolding p1_def by (metis nth_map nth_Cons_0 zero_less_numeral)
  have "map f (gridPoints g) ! 1 = f (gridPoints g ! 1)"
    using len by (intro nth_map) simp
  then have f2: "f p2 = (30, 1 / 2, Some 1, 7 / 160, - (31 / 160))"
    unfolding p2_def m by simp
  have mem: "p1 \<in> set (gridPoints g)" "p2 \<in> set (gridPoints g)"
    unfolding p1_def p2_def using len by simp_all
  have schema: "sensitivityRequestSchema monotonicityTestPayload"
    by (simp add: schema_eval_defs monotonicityTestPayload_def)
  have h: "haulDistancePerTripKm (point p1) = haulDistancePerTripKm (point p2)"
    using f1 f2 by (simp add: f_def)
  have a: "grinderAxisValueOf (axisMode g) (point p1) = grinderAxisValueOf (axisMode g) (point p2)"
    using f1 f2 by (simp add: f_def mode grinderAxisValueOf_def)
  have r: "reuseUptakeRate (point p1) < reuseUptakeRate (point p2)"
    using f1 f2 by (simp add: f_def)
  from sensitivity_monotone_in_reuse [OF schema ok mem h a r]
  have "scenarioVirginAggregateEmissionsTonsCO2e (diagnostics p2)
           \<le> scenarioVirginAggregateEmissionsTonsCO2e (diagnostics p1)"
    "emissionsAvoidedTonsCO2e (point p1) \<le> emissionsAvoidedTonsCO2e (point p2)"
    by simp_all
  moreover have "reuseUptakeRate (point p1) = 0" "reuseUptakeRate (point p2) = 1 / 2"
    using f1 f2 by (simp_all add: f_def)
  ultimately show ?thesis using schema ok mem by blast
qed









end
